theory Spec2Isabelle
  imports Main
begin

section \<open>JavaScript values and strings\<close>

text \<open>
  The components under study are the React handlers of the Generate tab
  (\<open>parseTestCaseIds\<close>, \<open>saveTestFile\<close>, \<open>handleGenerate\<close>) and of the Review tab
  (\<open>getCurrentFile\<close>, \<open>handleDryRun\<close>, \<open>handleImprove\<close>, \<open>applyImprovement\<close>).

  A JavaScript string is a sequence of code units; a \<open>char\<close> stands for one code unit
  below 256.  Values decoded from a response body are JSON values; \<open>JUndefined\<close> is the
  result of reading a property that is not there.  JSON numbers are restricted to
  integers, rendered in decimal.  An object is the list of its bindings in the order of
  the text; the last binding of a key is the one a property read sees.
\<close>

datatype js_val =
    JUndefined
  | JNull
  | JBool bool
  | JNum int
  | JStr string
  | JArr "js_val list"
  | JObj "(string \<times> js_val) list"

definition nl :: char where
  "nl = CHR 0x0A"

text \<open>The class \<open>\s\<close> of a regular expression, which is also what \<open>trim\<close> strips.\<close>

definition is_space :: "char \<Rightarrow> bool" where
  "is_space c \<longleftrightarrow>
     c = CHR 0x09 \<or> c = CHR 0x0A \<or> c = CHR 0x0B \<or> c = CHR 0x0C \<or> c = CHR 0x0D \<or>
     c = CHR 0x20 \<or> c = CHR 0xA0"

text \<open>The class \<open>[,\s\n]\<close> of \<open>parseTestCaseIds\<close>.\<close>

definition is_id_separator :: "char \<Rightarrow> bool" where
  "is_id_separator c \<longleftrightarrow> c = CHR '','' \<or> is_space c \<or> c = CHR 0x0A"

text \<open>
  \<open>s.split(/[C]+/)\<close> for a character class \<open>C\<close>: the pieces between the maximal runs of
  separator characters, with an empty piece in front of a leading run and behind a trailing
  one.  \<open>cur\<close> holds the piece read so far, reversed.
\<close>

function js_split :: "(char \<Rightarrow> bool) \<Rightarrow> string \<Rightarrow> string \<Rightarrow> string list" where
  "js_split sep cur [] = [rev cur]"
| "js_split sep cur (c # cs) =
     (if sep c then rev cur # js_split sep [] (dropWhile sep cs)
      else js_split sep (c # cur) cs)"
  by pat_completeness auto
termination
  by (relation "measure (\<lambda>(sep, cur, s). length s)")
     (auto simp: le_imp_less_Suc length_dropWhile_le)

definition js_trim :: "string \<Rightarrow> string" where
  "js_trim s = rev (dropWhile is_space (rev (dropWhile is_space s)))"

text \<open>\<open>s.replace(/\s+/g, '_')\<close>: every maximal run of white space becomes one underscore.\<close>

function replace_spaces :: "string \<Rightarrow> string" where
  "replace_spaces [] = []"
| "replace_spaces (c # cs) =
     (if is_space c then CHR ''_'' # replace_spaces (dropWhile is_space cs)
      else c # replace_spaces cs)"
  by pat_completeness auto
termination
  by (relation "measure length") (auto simp: le_imp_less_Suc length_dropWhile_le)

text \<open>Truthiness, \<open>a || b\<close>, property reads.\<close>

fun truthy :: "js_val \<Rightarrow> bool" where
  "truthy JUndefined = False"
| "truthy JNull = False"
| "truthy (JBool b) = b"
| "truthy (JNum n) = (n \<noteq> 0)"
| "truthy (JStr s) = (s \<noteq> [])"
| "truthy (JArr vs) = True"
| "truthy (JObj kvs) = True"

definition js_or :: "js_val \<Rightarrow> js_val \<Rightarrow> js_val" where
  "js_or a b = (if truthy a then a else b)"

text \<open>
  \<open>v.k\<close> for a value that is neither \<open>null\<close> nor \<open>undefined\<close>, and for the keys the
  handlers read (none of them is a property of a string, a number or an array).
\<close>

fun js_prop :: "js_val \<Rightarrow> string \<Rightarrow> js_val" where
  "js_prop (JObj kvs) k = (case map_of (rev kvs) k of None \<Rightarrow> JUndefined | Some v \<Rightarrow> v)"
| "js_prop v k = JUndefined"

text \<open>Decimal digits of a number, and the string a template literal makes of a value.\<close>

function show_nat :: "nat \<Rightarrow> string" where
  "show_nat n =
     (if n < 10 then [char_of (48 + n)]
      else show_nat (n div 10) @ [char_of (48 + n mod 10)])"
  by pat_completeness auto
termination
  by (relation "measure id") auto

declare show_nat.simps [simp del]

definition show_int :: "int \<Rightarrow> string" where
  "show_int n = (if n < 0 then CHR ''-'' # show_nat (nat (- n)) else show_nat (nat n))"

fun js_to_string :: "js_val \<Rightarrow> string"
  and join_elements :: "js_val list \<Rightarrow> string"
  and element_string :: "js_val \<Rightarrow> string" where
  "js_to_string JUndefined = ''undefined''"
| "js_to_string JNull = ''null''"
| "js_to_string (JBool b) = (if b then ''true'' else ''false'')"
| "js_to_string (JNum n) = show_int n"
| "js_to_string (JStr s) = s"
| "js_to_string (JArr vs) = join_elements vs"
| "js_to_string (JObj kvs) = ''[object Object]''"
| "join_elements [] = []"
| "join_elements [v] = element_string v"
| "join_elements (v # w # vs) = element_string v @ CHR '','' # join_elements (w # vs)"
| "element_string JUndefined = []"
| "element_string JNull = []"
| "element_string (JBool b) = js_to_string (JBool b)"
| "element_string (JNum n) = js_to_string (JNum n)"
| "element_string (JStr s) = js_to_string (JStr s)"
| "element_string (JArr vs) = js_to_string (JArr vs)"
| "element_string (JObj kvs) = js_to_string (JObj kvs)"

section \<open>Errors, requests and effects\<close>

datatype js_error = TypeError string | SyntaxError string | PlainError string

fun message :: "js_error \<Rightarrow> string" where
  "message (TypeError m) = m"
| "message (SyntaxError m) = m"
| "message (PlainError m) = m"

text \<open>
  \<open>fetch(url)\<close> and \<open>fetch(url, {method: 'POST', ..., body: JSON.stringify(b)})\<close>.
  The promise of \<open>fetch\<close> is rejected (\<open>NetworkFailure\<close>, with the message of the error)
  or gives a response with its \<open>ok\<close> flag and a body; \<open>response.json()\<close> is rejected
  with a message (\<open>Inl\<close>) when the body does not decode.
\<close>

datatype request = Get string | Post string js_val

datatype fetch_outcome = NetworkFailure string | Response bool "string + js_val"

record progress =
  current :: nat
  total :: nat
  p_tcId :: string
  p_status :: string

text \<open>
  One entry of \<open>generatedTests\<close>.  A field the object literal does not have is
  \<open>None\<close> or \<open>JUndefined\<close>.  Field names are global here, so the fields
  \<open>tcId\<close> and \<open>status\<close> of a progress report are \<open>p_tcId\<close> and \<open>p_status\<close>,
  the fields \<open>name\<close>, \<open>tcId\<close> and \<open>size\<close> of an uploaded file are \<open>f_name\<close>,
  \<open>f_tcId\<close> and \<open>f_size\<close>, and the selected model of the Review tab is
  \<open>rv_selectedModel\<close>.
\<close>

record generation_result =
  tcId :: string
  status :: string
  error :: "string option"
  testCode :: js_val
  testCaseName :: js_val
  validation :: js_val
  saved :: bool
  savedPath :: js_val
  saveError :: "string option"

record uploaded_file =
  f_name :: string
  f_tcId :: string
  content :: js_val
  f_size :: nat

datatype event =
    Alert string
  | ConsoleWarn string js_error
  | Fetch request
  | SetIsLoading bool
  | SetGeneratedTests "generation_result list"
  | SetCurrentProgress progress
  | SetUploadedFiles "uploaded_file list"
  | SetReviewResult js_val
  | SetIsDryRunning bool
  | SetDryRunResult js_val
  | SetIsImproving bool
  | SetImprovedCode js_val

text \<open>
  The servers behind \<open>fetch\<close>: what a request gets, given everything that happened
  before it.
\<close>

type_synonym env = "event list \<Rightarrow> request \<Rightarrow> fetch_outcome"

text \<open>
  An asynchronous function: it extends the trace of effects and returns a value or throws.
\<close>

type_synonym 'a io = "event list \<Rightarrow> (js_error + 'a) \<times> event list"

definition ret :: "'a \<Rightarrow> 'a io" where
  "ret x = (\<lambda>tr. (Inr x, tr))"

definition throw :: "js_error \<Rightarrow> 'a io" where
  "throw e = (\<lambda>tr. (Inl e, tr))"

text \<open>An expression without effects, which has a value or throws.\<close>

definition lift :: "js_error + 'a \<Rightarrow> 'a io" where
  "lift r = (\<lambda>tr. (r, tr))"

definition bind :: "'a io \<Rightarrow> ('a \<Rightarrow> 'b io) \<Rightarrow> 'b io" where
  "bind m f = (\<lambda>tr. case m tr of (Inl e, tr') \<Rightarrow> (Inl e, tr') | (Inr x, tr') \<Rightarrow> f x tr')"

definition seq :: "unit io \<Rightarrow> 'b io \<Rightarrow> 'b io" where
  "seq m n = bind m (\<lambda>_. n)"

definition emit :: "event \<Rightarrow> unit io" where
  "emit ev = (\<lambda>tr. (Inr (), tr @ [ev]))"

definition try_catch :: "'a io \<Rightarrow> (js_error \<Rightarrow> 'a io) \<Rightarrow> 'a io" where
  "try_catch m h = (\<lambda>tr. case m tr of (Inl e, tr') \<Rightarrow> h e tr' | (Inr x, tr') \<Rightarrow> (Inr x, tr'))"

definition try_finally :: "'a io \<Rightarrow> unit io \<Rightarrow> 'a io" where
  "try_finally m fin =
     (\<lambda>tr. case m tr of (r, tr') \<Rightarrow>
        (case fin tr' of (Inl e, tr'') \<Rightarrow> (Inl e, tr'') | (Inr _, tr'') \<Rightarrow> (r, tr'')))"

definition fetch :: "env \<Rightarrow> request \<Rightarrow> (bool \<times> (string + js_val)) io" where
  "fetch env req =
     (\<lambda>tr. case env tr req of
        NetworkFailure m \<Rightarrow> (Inl (TypeError m), tr @ [Fetch req])
      | Response ok body \<Rightarrow> (Inr (ok, body), tr @ [Fetch req]))"

definition response_json :: "bool \<times> (string + js_val) \<Rightarrow> js_error + js_val" where
  "response_json response =
     (case snd response of Inl m \<Rightarrow> Inl (SyntaxError m) | Inr v \<Rightarrow> Inr v)"

text \<open>\<open>v.k\<close> where \<open>v\<close> may be \<open>null\<close>: the read throws a \<open>TypeError\<close>.\<close>

definition get_prop :: "js_val \<Rightarrow> string \<Rightarrow> js_error + js_val" where
  "get_prop v k =
     (if v = JNull \<or> v = JUndefined
      then Inl (TypeError (''Cannot read properties of '' @ js_to_string v))
      else Inr (js_prop v k))"

text \<open>\<open>v?.k\<close>\<close>

definition opt_prop :: "js_val \<Rightarrow> string \<Rightarrow> js_val" where
  "opt_prop v k = (if v = JNull \<or> v = JUndefined then JUndefined else js_prop v k)"

section \<open>The Generate tab\<close>

text \<open>
  The local variables \<open>tcId\<close>, \<open>testCode\<close> and \<open>testCaseName\<close> of the source are
  written \<open>tcid\<close>, \<open>tcode\<close> and \<open>tcname\<close>, since the fields of a result carry
  the source's names.
\<close>

record gen_state =
  selectedModel :: string
  mdContent :: string
  testCaseIds :: string
  outputFolder :: string
  generatedTests :: "generation_result list"
  isLoading :: bool
  currentProgress :: progress

definition parseTestCaseIds :: "string \<Rightarrow> string list" where
  "parseTestCaseIds input =
     filter (\<lambda>id. length id > 0) (map js_trim (js_split is_id_separator [] input))"

record save_result =
  success :: bool
  path :: js_val
  s_error :: "string option"

text \<open>
  The file name of \<open>saveTestFile\<close>.  \<open>testCaseName?.replace\<close> is \<open>undefined\<close> for a
  missing name; for a value that is not a string the call of \<open>replace\<close> throws.
\<close>

definition save_filename :: "string \<Rightarrow> js_val \<Rightarrow> js_error + string" where
  "save_filename tcid tcname =
     (case tcname of
        JUndefined \<Rightarrow> Inr (replace_spaces tcid @ ''_'' @ ''test'')
      | JNull \<Rightarrow> Inr (replace_spaces tcid @ ''_'' @ ''test'')
      | JStr s \<Rightarrow>
          Inr (replace_spaces tcid @ ''_'' @
               (if replace_spaces s = [] then ''test'' else replace_spaces s))
      | _ \<Rightarrow> Inl (TypeError ''testCaseName?.replace is not a function''))"

definition save_request :: "string \<Rightarrow> string \<Rightarrow> js_val \<Rightarrow> request" where
  "save_request folderPath filename text =
     Post ''/api/test/save-file''
       (JObj [(''folder_path'', JStr folderPath),
              (''filename'', JStr filename),
              (''content'', text)])"

definition saveTestFile ::
  "env \<Rightarrow> string \<Rightarrow> string \<Rightarrow> js_val \<Rightarrow> js_val \<Rightarrow> save_result io" where
  "saveTestFile env folderPath tcid text tcname =
     bind (lift (save_filename tcid tcname)) (\<lambda>filename.
     try_catch
       (bind (fetch env (save_request folderPath filename text)) (\<lambda>response.
        if \<not> fst response then
          bind (lift (response_json response)) (\<lambda>err.
          bind (lift (get_prop err ''detail'')) (\<lambda>detail.
          throw (PlainError (js_to_string (js_or detail (JStr ''Failed to save file''))))))
        else
          bind (lift (response_json response)) (\<lambda>data.
          bind (lift (get_prop data ''file_path'')) (\<lambda>file_path.
          ret \<lparr>success = True, path = file_path, s_error = None\<rparr>))))
       (\<lambda>err. ret \<lparr>success = False, path = JUndefined, s_error = Some (message err)\<rparr>))"

text \<open>Step 1 of the loop body: the test case, or \<open>null\<close>.\<close>

definition testcase_request :: "string \<Rightarrow> request" where
  "testcase_request tcid = Get (''/api/codebeamer/testcase/'' @ tcid)"

definition fetchTestCase :: "env \<Rightarrow> string \<Rightarrow> js_val io" where
  "fetchTestCase env tcid =
     try_catch
       (bind (fetch env (testcase_request tcid)) (\<lambda>tcResponse.
        if fst tcResponse then lift (response_json tcResponse) else ret JNull))
       (\<lambda>e. seq (emit (ConsoleWarn ''Could not fetch from CodeBeamer:'' e)) (ret JNull))"

definition field_text :: "js_val \<Rightarrow> string \<Rightarrow> string" where
  "field_text testCaseData k = js_to_string (js_or (js_prop testCaseData k) (JStr []))"

definition generation_description :: "string \<Rightarrow> js_val \<Rightarrow> string" where
  "generation_description tcid testCaseData =
     (if truthy testCaseData
      then ''Test Case ID: '' @ tcid @ nl #
           ''Name: '' @ field_text testCaseData ''name'' @ nl #
           ''Feature: '' @ field_text testCaseData ''feature'' @ nl #
           ''Precondition: '' @ field_text testCaseData ''precondition'' @ nl #
           ''Test Steps: '' @ field_text testCaseData ''steps'' @ nl #
           ''Expected Result: '' @ field_text testCaseData ''expected''
      else ''Generate Robot Framework test for Test Case ID: '' @ tcid)"

definition generation_request :: "gen_state \<Rightarrow> string \<Rightarrow> js_val \<Rightarrow> request" where
  "generation_request st tcid testCaseData =
     Post ''/api/test/generate-ai''
       (JObj [(''description'', JStr (generation_description tcid testCaseData)),
              (''test_type'', JStr ''automotive''),
              (''model'', JStr (selectedModel st)),
              (''automation_context'', js_or (JStr (mdContent st)) JNull)])"

text \<open>\<open>{ current: i + 1, total: tcIds.length, tcId, status }\<close>\<close>

definition turn_progress :: "string list \<Rightarrow> nat \<Rightarrow> string \<Rightarrow> string \<Rightarrow> progress" where
  "turn_progress tcIds i tcid phase =
     \<lparr>current = i + 1, total = length tcIds, p_tcId = tcid, p_status = phase\<rparr>"

text \<open>The body of the \<open>try\<close> block, up to the object it pushes.\<close>

definition generateOne ::
  "env \<Rightarrow> gen_state \<Rightarrow> string list \<Rightarrow> nat \<Rightarrow> string \<Rightarrow> generation_result io" where
  "generateOne env st tcIds i tcid =
     bind (fetchTestCase env tcid) (\<lambda>testCaseData.
     bind (fetch env (generation_request st tcid testCaseData)) (\<lambda>response.
     bind (lift (response_json response)) (\<lambda>data.
     bind (lift (get_prop data ''test_code'')) (\<lambda>test_code.
     let tcode = js_or test_code
           (JStr (''*** Test Cases ***'' @ nl # ''# Generated for '' @ tcid @ nl #
                  ''# Error: No test code returned''));
         tcname = js_or (opt_prop testCaseData ''name'') (JStr tcid)
     in
     seq (emit (SetCurrentProgress (turn_progress tcIds i tcid ''Saving...'')))
     (bind (saveTestFile env (outputFolder st) tcid tcode tcname) (\<lambda>saveResult.
      ret \<lparr>tcId = tcid, status = ''success'', error = None, testCode = tcode,
           testCaseName = tcname, validation = js_prop data ''validation'',
           saved = success saveResult, savedPath = path saveResult,
           saveError = s_error saveResult\<rparr>))))))"

definition error_result :: "string \<Rightarrow> js_error \<Rightarrow> generation_result" where
  "error_result tcid err =
     \<lparr>tcId = tcid, status = ''error'', error = Some (message err),
      testCode = JStr (''*** Test Cases ***'' @ nl # ''# Error generating test for '' @ tcid @
                       '': '' @ message err),
      testCaseName = JUndefined, validation = JUndefined, saved = False,
      savedPath = JUndefined, saveError = None\<rparr>"

text \<open>One turn of the \<open>for\<close> loop, for \<open>tcId = tcIds[i]\<close>; it returns the new \<open>results\<close>.\<close>

definition iteration ::
  "env \<Rightarrow> gen_state \<Rightarrow> string list \<Rightarrow> nat \<Rightarrow> generation_result list \<Rightarrow> string \<Rightarrow>
   generation_result list io" where
  "iteration env st tcIds i results tcid =
     seq (emit (SetCurrentProgress (turn_progress tcIds i tcid ''Generating...'')))
     (bind (try_catch
              (bind (generateOne env st tcIds i tcid) (\<lambda>r. ret (results @ [r])))
              (\<lambda>err. ret (results @ [error_result tcid err])))
        (\<lambda>results'. seq (emit (SetGeneratedTests results')) (ret results')))"

function generateLoop ::
  "env \<Rightarrow> gen_state \<Rightarrow> string list \<Rightarrow> nat \<Rightarrow> generation_result list \<Rightarrow>
   generation_result list io" where
  "generateLoop env st tcIds i results =
     (if i < length tcIds
      then bind (iteration env st tcIds i results (tcIds ! i))
             (\<lambda>results'. generateLoop env st tcIds (Suc i) results')
      else ret results)"
  by pat_completeness auto
termination
  by (relation "measure (\<lambda>(env, st, tcIds, i, results). length tcIds - i)") auto

declare generateLoop.simps [simp del]

definition handleGenerate :: "env \<Rightarrow> gen_state \<Rightarrow> unit io" where
  "handleGenerate env st =
     (let tcIds = parseTestCaseIds (testCaseIds st) in
      if length tcIds = 0 then emit (Alert ''Please enter at least one Test Case ID'')
      else if js_trim (outputFolder st) = [] then
        emit (Alert ''Please enter Output Folder path to save generated test scripts'')
      else
        seq (emit (SetIsLoading True))
       (seq (emit (SetGeneratedTests []))
       (seq (emit (SetCurrentProgress
               \<lparr>current = 0, total = length tcIds, p_tcId = [], p_status = ''Starting...''\<rparr>))
       (bind (generateLoop env st tcIds 0 []) (\<lambda>results.
        seq (emit (SetIsLoading False))
        (let savedCount = length (filter saved results) in
         emit (SetCurrentProgress
               \<lparr>current = length tcIds, total = length tcIds, p_tcId = ''Complete!'',
                p_status = show_nat savedCount @ ''/'' @ show_nat (length tcIds) @
                           '' files saved to '' @ outputFolder st\<rparr>)))))))"

definition canGenerate :: "gen_state \<Rightarrow> bool" where
  "canGenerate st \<longleftrightarrow>
     length (parseTestCaseIds (testCaseIds st)) > 0 \<and> length (js_trim (outputFolder st)) > 0"

text \<open>The state of the component once the updates of a trace are applied.\<close>

fun gen_apply :: "event \<Rightarrow> gen_state \<Rightarrow> gen_state" where
  "gen_apply (SetIsLoading b) st = st\<lparr>isLoading := b\<rparr>"
| "gen_apply (SetGeneratedTests rs) st = st\<lparr>generatedTests := rs\<rparr>"
| "gen_apply (SetCurrentProgress p) st = st\<lparr>currentProgress := p\<rparr>"
| "gen_apply ev st = st"

text \<open>The effects a run adds to the trace.\<close>

definition effects :: "'a io \<Rightarrow> event list \<Rightarrow> event list" where
  "effects m tr = drop (length tr) (snd (m tr))"

definition gen_after :: "gen_state \<Rightarrow> event list \<Rightarrow> gen_state" where
  "gen_after st tr = fold gen_apply tr st"

section \<open>The Review tab\<close>

record review_state =
  rv_selectedModel :: string
  uploadedFiles :: "uploaded_file list"
  selectedFileIndex :: nat
  reviewResult :: js_val
  dryRunResult :: js_val
  improvementRequest :: string
  improvedCode :: js_val
  isReviewing :: bool
  isDryRunning :: bool
  isImproving :: bool

text \<open>\<open>uploadedFiles[selectedFileIndex] || null\<close>\<close>

definition getCurrentFile :: "review_state \<Rightarrow> uploaded_file option" where
  "getCurrentFile st =
     (if selectedFileIndex st < length (uploadedFiles st)
      then Some (uploadedFiles st ! selectedFileIndex st) else None)"

definition dry_run_failure :: "js_error \<Rightarrow> js_val" where
  "dry_run_failure err =
     JObj [(''success'', JBool False),
           (''output'', JStr (''Error: '' @ message err)),
           (''errors'', JArr [JStr (message err)])]"

definition handleDryRun :: "env \<Rightarrow> review_state \<Rightarrow> unit io" where
  "handleDryRun env st =
     (case getCurrentFile st of
        None \<Rightarrow> ret ()
      | Some file \<Rightarrow>
          seq (emit (SetIsDryRunning True))
         (seq (emit (SetDryRunResult JNull))
         (try_finally
            (try_catch
               (bind (fetch env (Post ''/api/test/dry-run''
                        (JObj [(''test_code'', content file)]))) (\<lambda>response.
                bind (lift (response_json response)) (\<lambda>data.
                emit (SetDryRunResult data))))
               (\<lambda>err. emit (SetDryRunResult (dry_run_failure err))))
            (emit (SetIsDryRunning False)))))"

definition improve_request :: "review_state \<Rightarrow> uploaded_file \<Rightarrow> request" where
  "improve_request st file =
     Post ''/api/test/improve''
       (JObj [(''test_code'', content file),
              (''test_case_id'', JStr (f_tcId file)),
              (''model'', JStr (rv_selectedModel st)),
              (''improvement_request'', JStr (improvementRequest st))])"

definition handleImprove :: "env \<Rightarrow> review_state \<Rightarrow> unit io" where
  "handleImprove env st =
     (case getCurrentFile st of
        None \<Rightarrow> ret ()
      | Some file \<Rightarrow>
          if js_trim (improvementRequest st) = [] then ret ()
          else
            seq (emit (SetIsImproving True))
           (seq (emit (SetImprovedCode (JStr [])))
           (try_finally
              (try_catch
                 (bind (fetch env (improve_request st file)) (\<lambda>response.
                  bind (lift (response_json response)) (\<lambda>data.
                  if \<not> fst response then
                    bind (lift (get_prop data ''detail'')) (\<lambda>detail.
                    throw (PlainError
                      (js_to_string (js_or detail (JStr ''Failed to improve test'')))))
                  else
                    bind (lift (get_prop data ''test_code'')) (\<lambda>test_code.
                    emit (SetImprovedCode test_code)))))
                 (\<lambda>err. emit (SetImprovedCode (JStr (''# Error: '' @ message err)))))
              (emit (SetIsImproving False)))))"

definition applyImprovement :: "review_state \<Rightarrow> unit io" where
  "applyImprovement st =
     (if truthy (improvedCode st) \<and> selectedFileIndex st < length (uploadedFiles st) then
        (let updated = uploadedFiles st;
             updated = updated[selectedFileIndex st :=
                         (updated ! selectedFileIndex st)\<lparr>content := improvedCode st\<rparr>]
         in seq (emit (SetUploadedFiles updated))
           (seq (emit (SetImprovedCode (JStr [])))
           (seq (emit (SetReviewResult JNull))
                (emit (SetDryRunResult JNull)))))
      else ret ())"

fun review_apply :: "event \<Rightarrow> review_state \<Rightarrow> review_state" where
  "review_apply (SetUploadedFiles fs) st = st\<lparr>uploadedFiles := fs\<rparr>"
| "review_apply (SetReviewResult v) st = st\<lparr>reviewResult := v\<rparr>"
| "review_apply (SetIsDryRunning b) st = st\<lparr>isDryRunning := b\<rparr>"
| "review_apply (SetDryRunResult v) st = st\<lparr>dryRunResult := v\<rparr>"
| "review_apply (SetIsImproving b) st = st\<lparr>isImproving := b\<rparr>"
| "review_apply (SetImprovedCode v) st = st\<lparr>improvedCode := v\<rparr>"
| "review_apply ev st = st"

definition review_after :: "review_state \<Rightarrow> event list \<Rightarrow> review_state" where
  "review_after st tr = fold review_apply tr st"

section \<open>What one request contributes\<close>

text \<open>
  The steps of the handlers that depend on the answer to a single request, written as
  functions of that answer.  The lemmas below show that the handlers compute them.
\<close>

definition testcase_data :: "fetch_outcome \<Rightarrow> js_val" where
  "testcase_data out =
     (case out of
        NetworkFailure m \<Rightarrow> JNull
      | Response ok body \<Rightarrow> (if ok then (case body of Inl m \<Rightarrow> JNull | Inr v \<Rightarrow> v) else JNull))"

definition testcase_warnings :: "fetch_outcome \<Rightarrow> event list" where
  "testcase_warnings out =
     (case out of
        NetworkFailure m \<Rightarrow> [ConsoleWarn ''Could not fetch from CodeBeamer:'' (TypeError m)]
      | Response ok body \<Rightarrow>
          (if ok then (case body of
                         Inl m \<Rightarrow> [ConsoleWarn ''Could not fetch from CodeBeamer:'' (SyntaxError m)]
                       | Inr v \<Rightarrow> [])
           else []))"

definition save_failed :: "string \<Rightarrow> save_result" where
  "save_failed m = \<lparr>success = False, path = JUndefined, s_error = Some m\<rparr>"

definition save_outcome :: "fetch_outcome \<Rightarrow> save_result" where
  "save_outcome out =
     (case out of
        NetworkFailure m \<Rightarrow> save_failed m
      | Response ok body \<Rightarrow>
          (case body of
             Inl m \<Rightarrow> save_failed m
           | Inr v \<Rightarrow>
               (if v = JNull \<or> v = JUndefined
                then save_failed (''Cannot read properties of '' @ js_to_string v)
                else if ok then \<lparr>success = True, path = js_prop v ''file_path'', s_error = None\<rparr>
                else save_failed
                       (js_to_string (js_or (js_prop v ''detail'') (JStr ''Failed to save file''))))))"

text \<open>\<open>await fetch\<close>, then \<open>await response.json()\<close>, then the read of a property.\<close>

definition decoded_object :: "fetch_outcome \<Rightarrow> js_error + js_val" where
  "decoded_object out =
     (case out of
        NetworkFailure m \<Rightarrow> Inl (TypeError m)
      | Response ok body \<Rightarrow>
          (case body of
             Inl m \<Rightarrow> Inl (SyntaxError m)
           | Inr v \<Rightarrow>
               (if v = JNull \<or> v = JUndefined
                then Inl (TypeError (''Cannot read properties of '' @ js_to_string v))
                else Inr v)))"

text \<open>The improved code and the dry-run result a handler publishes, given the answer.\<close>

definition improve_outcome :: "fetch_outcome \<Rightarrow> js_val" where
  "improve_outcome out =
     (case out of
        NetworkFailure m \<Rightarrow> JStr (''# Error: '' @ m)
      | Response ok body \<Rightarrow>
          (case body of
             Inl m \<Rightarrow> JStr (''# Error: '' @ m)
           | Inr data \<Rightarrow>
               (if data = JNull \<or> data = JUndefined
                then JStr (''# Error: '' @ ''Cannot read properties of '' @ js_to_string data)
                else if ok then js_prop data ''test_code''
                else JStr (''# Error: '' @
                       js_to_string (js_or (js_prop data ''detail'') (JStr ''Failed to improve test''))))))"

definition dry_run_outcome :: "fetch_outcome \<Rightarrow> js_val" where
  "dry_run_outcome out =
     (case out of
        NetworkFailure m \<Rightarrow> dry_run_failure (TypeError m)
      | Response ok body \<Rightarrow>
          (case body of
             Inl m \<Rightarrow> dry_run_failure (SyntaxError m)
           | Inr data \<Rightarrow> data))"

text \<open>The first report of a turn, the result the turn pushes and the effects in between.\<close>

definition generating :: "string list \<Rightarrow> nat \<Rightarrow> string \<Rightarrow> event" where
  "generating tcIds i tcid = SetCurrentProgress (turn_progress tcIds i tcid ''Generating...'')"

definition turn_result ::
  "env \<Rightarrow> gen_state \<Rightarrow> string list \<Rightarrow> nat \<Rightarrow> string \<Rightarrow> event list \<Rightarrow> generation_result" where
  "turn_result env st tcIds i tcid tr =
     (case fst (generateOne env st tcIds i tcid (tr @ [generating tcIds i tcid])) of
        Inl e \<Rightarrow> error_result tcid e
      | Inr r \<Rightarrow> r)"

definition turn_effects ::
  "env \<Rightarrow> gen_state \<Rightarrow> string list \<Rightarrow> nat \<Rightarrow> string \<Rightarrow> event list \<Rightarrow> event list" where
  "turn_effects env st tcIds i tcid tr =
     effects (generateOne env st tcIds i tcid) (tr @ [generating tcIds i tcid])"

text \<open>What \<open>handleGenerate\<close> does before the loop and after it.\<close>

definition starting :: "string list \<Rightarrow> event list" where
  "starting tcIds =
     [SetIsLoading True, SetGeneratedTests [],
      SetCurrentProgress \<lparr>current = 0, total = length tcIds, p_tcId = [], p_status = ''Starting...''\<rparr>]"

definition completing :: "gen_state \<Rightarrow> string list \<Rightarrow> generation_result list \<Rightarrow> event list" where
  "completing st tcIds results =
     [SetIsLoading False,
      SetCurrentProgress
        \<lparr>current = length tcIds, total = length tcIds, p_tcId = ''Complete!'',
         p_status = show_nat (length (filter saved results)) @ ''/'' @ show_nat (length tcIds) @
                    '' files saved to '' @ outputFolder st\<rparr>]"

section \<open>Properties of results and traces\<close>

text \<open>
  Modelled from the spec: the persistence service behind \<open>/api/test/save-file\<close>, whose
  code is not among the sources.  ``Given a root path, filename, and content, writes a
  file and returns the resolved path, or fails with a filesystem error'': an answer with
  the \<open>ok\<close> flag carries the resolved path, a string that is not empty, as \<open>file_path\<close>.
\<close>

definition persistence_contract :: "env \<Rightarrow> bool" where
  "persistence_contract env \<longleftrightarrow>
     (\<forall>tr folder filename text data.
        env tr (save_request folder filename text) = Response True (Inr data) \<longrightarrow>
        (\<exists>p. js_prop data ''file_path'' = JStr p \<and> p \<noteq> []))"

text \<open>The test case fetch fails: a network error or a status that is not ok.\<close>

fun fetch_failed :: "fetch_outcome \<Rightarrow> bool" where
  "fetch_failed (NetworkFailure m) = True"
| "fetch_failed (Response ok body) = (\<not> ok)"

text \<open>The \<open>saved\<close> flag of a result is accounted for.\<close>

definition explained :: "generation_result \<Rightarrow> bool" where
  "explained r \<longleftrightarrow>
     (saved r \<longrightarrow> (\<exists>p. savedPath r = JStr p \<and> p \<noteq> [])) \<and>
     (\<not> saved r \<longrightarrow> error r \<noteq> None \<or> saveError r \<noteq> None)"

text \<open>
  The effects of a turn between its first report and the publication of its result:
  requests, warnings and the report \<open>Saving...\<close> of the turn.
\<close>

fun turn_event :: "string list \<Rightarrow> nat \<Rightarrow> string \<Rightarrow> event \<Rightarrow> bool" where
  "turn_event tcIds i tcid (Fetch req) = True"
| "turn_event tcIds i tcid (ConsoleWarn w e) = True"
| "turn_event tcIds i tcid (SetCurrentProgress p) = (p = turn_progress tcIds i tcid ''Saving...'')"
| "turn_event tcIds i tcid ev = False"




text \<open>The requests to the generation service and to the persistence service.\<close>

fun is_generate_request :: "event \<Rightarrow> bool" where
  "is_generate_request (Fetch (Post u b)) = (u = ''/api/test/generate-ai'')"
| "is_generate_request ev = False"

fun is_save_request :: "event \<Rightarrow> bool" where
  "is_save_request (Fetch (Post u b)) = (u = ''/api/test/save-file'')"
| "is_save_request ev = False"

section \<open>Example runs\<close>

text \<open>The Generate tab with a batch of one, of two and of twice the same identifier.\<close>

definition no_progress :: progress where
  "no_progress = \<lparr>current = 0, total = 0, p_tcId = [], p_status = []\<rparr>"

definition gen_initial :: gen_state where
  "gen_initial =
     \<lparr>selectedModel = ''exacode'', mdContent = [], testCaseIds = [], outputFolder = [],
      generatedTests = [], isLoading = False, currentProgress = no_progress\<rparr>"

definition gen_one :: gen_state where
  "gen_one = gen_initial\<lparr>testCaseIds := ''TC-1'', outputFolder := ''out''\<rparr>"

definition gen_two :: gen_state where
  "gen_two = gen_initial\<lparr>testCaseIds := ''TC-1, TC-2'', outputFolder := ''out''\<rparr>"

definition gen_dup :: gen_state where
  "gen_dup = gen_initial\<lparr>testCaseIds := ''TC-1 TC-1'', outputFolder := ''out''\<rparr>"

text \<open>The Review tab with one uploaded script, selected, and improved code at hand.\<close>

definition robot_file :: uploaded_file where
  "robot_file =
     \<lparr>f_name = ''TC-1_door.robot'', f_tcId = ''TC-1'', content = JStr ''*** Test Cases ***'',
      f_size = 18\<rparr>"

definition review_one :: review_state where
  "review_one =
     \<lparr>rv_selectedModel = ''ollama-qwen3'', uploadedFiles = [robot_file], selectedFileIndex = 0,
      reviewResult = JObj [(''feedback'', JStr ''ok'')], dryRunResult = JNull,
      improvementRequest = ''add teardown'', improvedCode = JStr ''*** Settings ***'',
      isReviewing = False, isDryRunning = False, isImproving = False\<rparr>"

text \<open>Every service answers as it should.\<close>

definition env_ok :: env where
  "env_ok tr req =
     (case req of
        Get u \<Rightarrow> Response True (Inr (JObj [(''name'', JStr ''Door lock'')]))
      | Post u b \<Rightarrow>
          if u = ''/api/test/generate-ai''
          then Response True (Inr (JObj [(''test_code'', JStr ''*** Test Cases ***'')]))
          else Response True (Inr (JObj [(''file_path'', JStr ''out/saved.robot'')])))"

text \<open>The generation service answers with an error status and the reason, as JSON.\<close>

definition env_generation_refused :: env where
  "env_generation_refused tr req =
     (case req of
        Get u \<Rightarrow> Response True (Inr (JObj [(''name'', JStr ''Door lock'')]))
      | Post u b \<Rightarrow>
          if u = ''/api/test/generate-ai''
          then Response False (Inr (JObj [(''detail'', JStr ''Ollama is not running'')]))
          else Response True (Inr (JObj [(''file_path'', JStr ''out/saved.robot'')])))"

text \<open>The test case service is down; the other services answer.\<close>

definition env_no_testcase :: env where
  "env_no_testcase tr req =
     (case req of
        Get u \<Rightarrow> NetworkFailure ''Failed to fetch''
      | Post u b \<Rightarrow>
          if u = ''/api/test/generate-ai''
          then Response True (Inr (JObj [(''test_code'', JStr ''*** Test Cases ***'')]))
          else Response True (Inr (JObj [(''file_path'', JStr ''out/saved.robot'')])))"

text \<open>The syntax check answers with an error status and the reason, as JSON.\<close>

definition env_dry_run_refused :: env where
  "env_dry_run_refused tr req =
     Response False (Inr (JObj [(''detail'', JStr ''robot is not installed'')]))"

text \<open>The requests for a test case.\<close>

fun is_testcase_request :: "event \<Rightarrow> bool" where
  "is_testcase_request (Fetch (Get u)) = True"
| "is_testcase_request ev = False"



section \<open>Running the effects\<close>

lemma ret_apply [simp]: "ret x tr = (Inr x, tr)"
  by (simp add: ret_def)

lemma throw_apply [simp]: "throw e tr = (Inl e, tr)"
  by (simp add: throw_def)

lemma lift_apply [simp]: "lift r tr = (r, tr)"
  by (simp add: lift_def)

lemma emit_apply [simp]: "emit ev tr = (Inr (), tr @ [ev])"
  by (simp add: emit_def)

lemma bind_apply:
  "bind m f tr = (case m tr of (Inl e, tr') \<Rightarrow> (Inl e, tr') | (Inr x, tr') \<Rightarrow> f x tr')"
  by (simp add: bind_def)

lemma seq_apply:
  "seq m n tr = (case m tr of (Inl e, tr') \<Rightarrow> (Inl e, tr') | (Inr x, tr') \<Rightarrow> n tr')"
  by (simp add: seq_def bind_def)

lemma try_catch_apply:
  "try_catch m h tr = (case m tr of (Inl e, tr') \<Rightarrow> h e tr' | (Inr x, tr') \<Rightarrow> (Inr x, tr'))"
  by (simp add: try_catch_def)

lemma try_finally_apply:
  "try_finally m fin tr =
     (case m tr of (r, tr') \<Rightarrow>
        (case fin tr' of (Inl e, tr'') \<Rightarrow> (Inl e, tr'') | (Inr u, tr'') \<Rightarrow> (r, tr'')))"
  by (simp add: try_finally_def)

lemma fetch_apply:
  "fetch env req tr =
     (case env tr req of
        NetworkFailure m \<Rightarrow> (Inl (TypeError m), tr @ [Fetch req])
      | Response ok body \<Rightarrow> (Inr (ok, body), tr @ [Fetch req]))"
  by (simp add: fetch_def)

lemmas io_apply = bind_apply seq_apply try_catch_apply try_finally_apply fetch_apply

section \<open>Malformed requests\<close>

lemma handleGenerate_rejected:
  assumes "parseTestCaseIds (testCaseIds st) = [] \<or> js_trim (outputFolder st) = []"
  shows "handleGenerate env st tr =
     (Inr (), tr @ [Alert (if parseTestCaseIds (testCaseIds st) = []
                           then ''Please enter at least one Test Case ID''
                           else ''Please enter Output Folder path to save generated test scripts'')])"
  using assms by (auto simp: handleGenerate_def Let_def)

text \<open>
  C5.  A request with no identifier, or with an output folder that is empty or white space
  only, is rejected before the pipeline starts: \<open>handleGenerate\<close> returns after a single
  alert.  It issues no request, reports no progress, publishes no result, and the state
  of the component stays as it was.
\<close>

theorem malformed_request_rejected:
  assumes "parseTestCaseIds (testCaseIds st) = [] \<or> js_trim (outputFolder st) = []"
  shows "fst (handleGenerate env st tr) = Inr ()
       \<and> (\<exists>msg. effects (handleGenerate env st) tr = [Alert msg])
       \<and> (\<forall>req. Fetch req \<notin> set (effects (handleGenerate env st) tr))
       \<and> (\<forall>rs. SetGeneratedTests rs \<notin> set (effects (handleGenerate env st) tr))
       \<and> gen_after st (effects (handleGenerate env st) tr) = st
       \<and> \<not> canGenerate st"
  using assms handleGenerate_rejected [OF assms, of env tr]
  by (auto simp: gen_after_def canGenerate_def effects_def)

theorem malformed_request_rejected_witness:
  "(parseTestCaseIds (testCaseIds (gen_initial\<lparr>testCaseIds := ''TC-1''\<rparr>)) = []
      \<or> js_trim (outputFolder (gen_initial\<lparr>testCaseIds := ''TC-1''\<rparr>)) = [])
   \<and> effects (handleGenerate env_ok (gen_initial\<lparr>testCaseIds := ''TC-1''\<rparr>)) [] =
       [Alert ''Please enter Output Folder path to save generated test scripts'']"
proof -
  have blank: "js_trim (outputFolder (gen_initial\<lparr>testCaseIds := ''TC-1''\<rparr>)) = []"
    by (simp add: gen_initial_def js_trim_def)
  have ids: "parseTestCaseIds (testCaseIds (gen_initial\<lparr>testCaseIds := ''TC-1''\<rparr>)) \<noteq> []"
    by (simp add: parseTestCaseIds_def is_id_separator_def is_space_def js_trim_def)
  from malformed_request_rejected [of "gen_initial\<lparr>testCaseIds := ''TC-1''\<rparr>" env_ok "[]"] blank
  obtain msg where
    "effects (handleGenerate env_ok (gen_initial\<lparr>testCaseIds := ''TC-1''\<rparr>)) [] = [Alert msg]"
    by blast
  moreover have "effects (handleGenerate env_ok (gen_initial\<lparr>testCaseIds := ''TC-1''\<rparr>)) [] =
       [Alert ''Please enter Output Folder path to save generated test scripts'']"
    using handleGenerate_rejected [of "gen_initial\<lparr>testCaseIds := ''TC-1''\<rparr>" env_ok "[]"] blank ids
    by (simp add: effects_def)
  ultimately show ?thesis using blank by simp
qed

section \<open>The loop body\<close>

lemma fetchTestCase_apply:
  "fetchTestCase env tcid tr =
     (Inr (testcase_data (env tr (testcase_request tcid))),
      tr @ Fetch (testcase_request tcid) # testcase_warnings (env tr (testcase_request tcid)))"
  by (simp add: fetchTestCase_def io_apply response_json_def testcase_data_def testcase_warnings_def
           split: fetch_outcome.splits sum.splits)

lemma saveTestFile_apply:
  "saveTestFile env folder tcid text tcname tr =
     (case save_filename tcid tcname of
        Inl e \<Rightarrow> (Inl e, tr)
      | Inr fn \<Rightarrow> (Inr (save_outcome (env tr (save_request folder fn text))),
                   tr @ [Fetch (save_request folder fn text)]))"
  by (simp add: saveTestFile_def io_apply response_json_def get_prop_def save_outcome_def save_failed_def
           split: fetch_outcome.splits sum.splits)

lemma generateOne_apply:
  "generateOne env st tcIds i tcid tr1 =
     (let out1 = env tr1 (testcase_request tcid);
          testCaseData = testcase_data out1;
          ev1 = Fetch (testcase_request tcid) # testcase_warnings out1;
          req = generation_request st tcid testCaseData;
          ev2 = ev1 @ [Fetch req]
      in case decoded_object (env (tr1 @ ev1) req) of
           Inl e \<Rightarrow> (Inl e, tr1 @ ev2)
         | Inr data \<Rightarrow>
             (let tcode = js_or (js_prop data ''test_code'')
                    (JStr (''*** Test Cases ***'' @ nl # ''# Generated for '' @ tcid @ nl #
                           ''# Error: No test code returned''));
                  tcname = js_or (opt_prop testCaseData ''name'') (JStr tcid);
                  ev3 = ev2 @ [SetCurrentProgress (turn_progress tcIds i tcid ''Saving...'')]
              in case save_filename tcid tcname of
                   Inl e \<Rightarrow> (Inl e, tr1 @ ev3)
                 | Inr fn \<Rightarrow>
                     (let sreq = save_request (outputFolder st) fn tcode;
                          saveResult = save_outcome (env (tr1 @ ev3) sreq)
                      in (Inr \<lparr>tcId = tcid, status = ''success'', error = None, testCode = tcode,
                           testCaseName = tcname, validation = js_prop data ''validation'',
                           saved = success saveResult, savedPath = path saveResult,
                           saveError = s_error saveResult\<rparr>,
                          tr1 @ ev3 @ [Fetch sreq]))))"
  by (simp add: generateOne_def fetchTestCase_apply saveTestFile_apply io_apply response_json_def
        get_prop_def decoded_object_def Let_def
      split: fetch_outcome.splits sum.splits)

lemma generateOne_appends:
  "snd (generateOne env st tcIds i tcid tr) = tr @ effects (generateOne env st tcIds i tcid) tr"
  by (simp add: effects_def generateOne_apply Let_def split: sum.splits)

lemma iteration_apply:
  "iteration env st tcIds i results tcid tr =
     (Inr (results @ [turn_result env st tcIds i tcid tr]),
      tr @ generating tcIds i tcid # turn_effects env st tcIds i tcid tr @
        [SetGeneratedTests (results @ [turn_result env st tcIds i tcid tr])])"
proof -
  obtain res tr2 where
    run: "generateOne env st tcIds i tcid (tr @ [generating tcIds i tcid]) = (res, tr2)"
    by (cases "generateOne env st tcIds i tcid (tr @ [generating tcIds i tcid])")
  have tr2: "tr2 = tr @ generating tcIds i tcid # turn_effects env st tcIds i tcid tr"
    using generateOne_appends [of env st tcIds i tcid "tr @ [generating tcIds i tcid]"] run
    by (simp add: turn_effects_def)
  show ?thesis
    using run tr2
    by (cases res) (simp_all add: iteration_def io_apply turn_result_def generating_def)
qed

section \<open>The loop\<close>

lemma generateLoop_invariant:
  assumes step: "\<And>j rs t. j < length tcIds \<Longrightarrow> I j rs t \<Longrightarrow>
            I (Suc j) (rs @ [turn_result env st tcIds j (tcIds ! j) t])
              (t @ generating tcIds j (tcIds ! j) # turn_effects env st tcIds j (tcIds ! j) t @
                 [SetGeneratedTests (rs @ [turn_result env st tcIds j (tcIds ! j) t])])"
    and init: "I i results tr" and le: "i \<le> length tcIds"
  shows "\<exists>results' tr'. generateLoop env st tcIds i results tr = (Inr results', tr') \<and>
           I (length tcIds) results' tr'"
  using init le
proof (induction "length tcIds - i" arbitrary: i results tr)
  case 0
  then have "i = length tcIds" by simp
  with 0 show ?case by (subst generateLoop.simps) simp
next
  case (Suc n)
  then have lt: "i < length tcIds" by simp
  let ?r = "turn_result env st tcIds i (tcIds ! i) tr"
  let ?t = "tr @ generating tcIds i (tcIds ! i) # turn_effects env st tcIds i (tcIds ! i) tr @
              [SetGeneratedTests (results @ [?r])]"
  have "I (Suc i) (results @ [?r]) ?t" using step [OF lt Suc.prems(1)] .
  moreover have "n = length tcIds - Suc i" using Suc.hyps(2) by simp
  moreover have "Suc i \<le> length tcIds" using lt by simp
  ultimately obtain results' tr' where
    "generateLoop env st tcIds (Suc i) (results @ [?r]) ?t = (Inr results', tr')"
    "I (length tcIds) results' tr'"
    using Suc.hyps(1) by blast
  then show ?case using lt
    by (subst generateLoop.simps) (simp add: bind_apply iteration_apply)
qed

text \<open>The same, for a property of the effects the loop adds to the trace it starts from.\<close>

lemma generateLoop_effects:
  assumes step: "\<And>j rs new. j < length tcIds \<Longrightarrow> P j rs new \<Longrightarrow>
            P (Suc j) (rs @ [turn_result env st tcIds j (tcIds ! j) (tr @ new)])
              (new @ generating tcIds j (tcIds ! j) #
                 turn_effects env st tcIds j (tcIds ! j) (tr @ new) @
                 [SetGeneratedTests (rs @ [turn_result env st tcIds j (tcIds ! j) (tr @ new)])])"
    and init: "P 0 [] []"
  shows "\<exists>results new. generateLoop env st tcIds 0 [] tr = (Inr results, tr @ new) \<and>
           P (length tcIds) results new"
proof -
  have "\<exists>results' tr'. generateLoop env st tcIds 0 [] tr = (Inr results', tr') \<and>
          (\<exists>new. tr' = tr @ new \<and> P (length tcIds) results' new)"
  proof (rule generateLoop_invariant [where I = "\<lambda>j rs t. \<exists>new. t = tr @ new \<and> P j rs new"])
    fix j rs t
    assume "j < length tcIds" and "\<exists>new. t = tr @ new \<and> P j rs new"
    then obtain new where "t = tr @ new" "P j rs new" by blast
    with step [OF \<open>j < length tcIds\<close> \<open>P j rs new\<close>]
    show "\<exists>new. t @ generating tcIds j (tcIds ! j) # turn_effects env st tcIds j (tcIds ! j) t @
                     [SetGeneratedTests (rs @ [turn_result env st tcIds j (tcIds ! j) t])] = tr @ new
              \<and> P (Suc j) (rs @ [turn_result env st tcIds j (tcIds ! j) t]) new"
      by auto
  qed (use init in auto)
  then show ?thesis by blast
qed

lemma handleGenerate_accepted:
  assumes "canGenerate st"
    and "generateLoop env st (parseTestCaseIds (testCaseIds st)) 0 []
           (tr @ starting (parseTestCaseIds (testCaseIds st))) = (Inr results, tr')"
  shows "handleGenerate env st tr =
           (Inr (), tr' @ completing st (parseTestCaseIds (testCaseIds st)) results)"
  using assms
  by (simp add: handleGenerate_def canGenerate_def Let_def io_apply starting_def completing_def)

lemma turn_result_tcId [simp]: "tcId (turn_result env st tcIds i tcid tr) = tcid"
  by (simp add: turn_result_def generateOne_apply Let_def error_result_def split: sum.splits)

lemma generatedTests_after_run:
  "generatedTests (gen_after s (xs @ ys @ SetGeneratedTests rs # completing st tcIds results)) = rs"
  by (simp add: gen_after_def completing_def)

lemma batch_run:
  "\<exists>results new. generateLoop env st tcIds 0 [] tr = (Inr results, tr @ new)
      \<and> map tcId results = tcIds
      \<and> (tcIds \<noteq> [] \<longrightarrow> (\<exists>pre. new = pre @ [SetGeneratedTests results]))"
proof -
  have "\<exists>results new. generateLoop env st tcIds 0 [] tr = (Inr results, tr @ new) \<and>
          (map tcId results = take (length tcIds) tcIds \<and>
           (0 < length tcIds \<longrightarrow> (\<exists>pre. new = pre @ [SetGeneratedTests results])))"
    by (rule generateLoop_effects
          [where P = "\<lambda>j rs new. map tcId rs = take j tcIds \<and>
                        (0 < j \<longrightarrow> (\<exists>pre. new = pre @ [SetGeneratedTests rs]))"])
       (auto simp: take_Suc_conv_app_nth)
  then show ?thesis by auto
qed

lemma handleGenerate_run:
  assumes "canGenerate st"
  shows "\<exists>results pre.
           handleGenerate env st tr =
             (Inr (), tr @ starting (parseTestCaseIds (testCaseIds st)) @ pre @
                SetGeneratedTests results # completing st (parseTestCaseIds (testCaseIds st)) results)
         \<and> map tcId results = parseTestCaseIds (testCaseIds st)"
proof -
  let ?ids = "parseTestCaseIds (testCaseIds st)"
  from assms have ne: "?ids \<noteq> []" by (auto simp: canGenerate_def)
  from batch_run [of env st ?ids "tr @ starting ?ids"] ne
  obtain results pre where
    run: "generateLoop env st ?ids 0 [] (tr @ starting ?ids) =
            (Inr results, (tr @ starting ?ids) @ pre @ [SetGeneratedTests results])"
    and ids: "map tcId results = ?ids"
    by blast
  from handleGenerate_accepted [OF assms run] ids show ?thesis by auto
qed

text \<open>
  C2.  For every list of identifiers, whatever the services answer, the loop returns one
  result for each identifier, in the order of the list.  When the request passes the
  checks of \<open>handleGenerate\<close> (at least one identifier and an output folder that is not
  blank), the handler does not throw and the results it leaves in \<open>generatedTests\<close> are
  those of the identifiers parsed from the input, in the same order.
\<close>

theorem batch_results_in_input_order:
  "(\<exists>results tr'. generateLoop env st tcIds 0 [] tr = (Inr results, tr')
       \<and> map tcId results = tcIds \<and> length results = length tcIds)
   \<and> (canGenerate st \<longrightarrow>
        fst (handleGenerate env st tr) = Inr () \<and>
        map tcId (generatedTests (gen_after st0 (effects (handleGenerate env st) tr))) =
          parseTestCaseIds (testCaseIds st))"
proof (intro conjI impI)
  from batch_run [of env st tcIds tr]
  obtain results new where "generateLoop env st tcIds 0 [] tr = (Inr results, tr @ new)"
    "map tcId results = tcIds" by blast
  moreover from this have "length results = length tcIds" by (metis length_map)
  ultimately show "\<exists>results tr'. generateLoop env st tcIds 0 [] tr = (Inr results, tr')
       \<and> map tcId results = tcIds \<and> length results = length tcIds" by blast
next
  assume "canGenerate st"
  from handleGenerate_run [OF this, of env tr]
  show "fst (handleGenerate env st tr) = Inr ()" by auto
next
  assume "canGenerate st"
  from handleGenerate_run [OF this, of env tr]
  obtain results pre where
    run: "handleGenerate env st tr =
             (Inr (), tr @ starting (parseTestCaseIds (testCaseIds st)) @ pre @
                SetGeneratedTests results # completing st (parseTestCaseIds (testCaseIds st)) results)"
    and ids: "map tcId results = parseTestCaseIds (testCaseIds st)"
    by blast
  have "effects (handleGenerate env st) tr =
          starting (parseTestCaseIds (testCaseIds st)) @ pre @
          SetGeneratedTests results # completing st (parseTestCaseIds (testCaseIds st)) results"
    using run by (simp add: effects_def)
  then show "map tcId (generatedTests (gen_after st0 (effects (handleGenerate env st) tr))) =
          parseTestCaseIds (testCaseIds st)"
    using ids by (simp only: generatedTests_after_run)
qed

lemma parse_two: "parseTestCaseIds ''TC-1, TC-2'' = [''TC-1'', ''TC-2'']"
  by (simp add: parseTestCaseIds_def is_id_separator_def is_space_def js_trim_def)

theorem batch_results_in_input_order_witness:
  "canGenerate gen_two \<and>
   map tcId (generatedTests (gen_after gen_two (effects (handleGenerate env_ok gen_two) []))) =
     [''TC-1'', ''TC-2'']"
proof -
  have can: "canGenerate gen_two"
    by (simp add: canGenerate_def gen_two_def gen_initial_def parse_two js_trim_def is_space_def)
  from batch_results_in_input_order [of env_ok gen_two "[]" "[]" gen_two] can
  have "map tcId (generatedTests (gen_after gen_two (effects (handleGenerate env_ok gen_two) []))) =
          parseTestCaseIds (testCaseIds gen_two)"
    by blast
  moreover have "testCaseIds gen_two = ''TC-1, TC-2''"
    by (simp add: gen_two_def gen_initial_def)
  ultimately show ?thesis using can parse_two by simp
qed

section \<open>The result of a turn\<close>

lemma save_outcome_success:
  assumes "success (save_outcome out)"
  shows "\<exists>data. out = Response True (Inr data) \<and> path (save_outcome out) = js_prop data ''file_path''"
  using assms
  by (auto simp: save_outcome_def save_failed_def split: fetch_outcome.splits sum.splits if_splits)

lemma save_outcome_failure:
  assumes "\<not> success (save_outcome out)"
  shows "s_error (save_outcome out) \<noteq> None"
  using assms
  by (auto simp: save_outcome_def save_failed_def split: fetch_outcome.splits sum.splits if_splits)

lemma turn_result_saved:
  assumes "persistence_contract env" and "saved (turn_result env st tcIds i tcid tr)"
  shows "\<exists>p. savedPath (turn_result env st tcIds i tcid tr) = JStr p \<and> p \<noteq> []"
  using assms
  by (auto simp: turn_result_def generateOne_apply Let_def error_result_def persistence_contract_def
           split: sum.splits dest!: save_outcome_success)

lemma turn_result_unsaved:
  assumes "\<not> saved (turn_result env st tcIds i tcid tr)"
  shows "error (turn_result env st tcIds i tcid tr) \<noteq> None \<or>
         saveError (turn_result env st tcIds i tcid tr) \<noteq> None"
  using assms
  by (auto simp: turn_result_def generateOne_apply Let_def error_result_def
           split: sum.splits dest!: save_outcome_failure)

lemma testcase_warnings_events: "list_all (turn_event tcIds i tcid) (testcase_warnings out)"
  by (simp add: testcase_warnings_def split: fetch_outcome.splits sum.splits)

lemma turn_effects_events: "list_all (turn_event tcIds i tcid) (turn_effects env st tcIds i tcid tr)"
  by (simp add: turn_effects_def effects_def generateOne_apply Let_def testcase_warnings_events
           split: sum.splits)

lemma turn_effects_no_results: "SetGeneratedTests rs \<notin> set (turn_effects env st tcIds i tcid tr)"
  using turn_effects_events [of tcIds i tcid env st tr]
  by (auto simp: list_all_iff)


section \<open>Saved results\<close>

lemma turn_result_explained:
  "persistence_contract env \<Longrightarrow> explained (turn_result env st tcIds i tcid tr)"
  using turn_result_saved turn_result_unsaved by (auto simp: explained_def)

lemma batch_results_explained:
  assumes "persistence_contract env"
  shows "\<exists>results new. generateLoop env st tcIds 0 [] tr = (Inr results, tr @ new) \<and>
     (\<forall>r \<in> set results. explained r) \<and>
     (\<forall>rs. SetGeneratedTests rs \<in> set new \<longrightarrow> (\<forall>r \<in> set rs. explained r))"
proof (rule generateLoop_effects, goal_cases)
  case (1 j rs new)
  let ?r = "turn_result env st tcIds j (tcIds ! j) (tr @ new)"
  have r: "explained ?r" using turn_result_explained [OF assms] .
  from 1(2) have old: "\<forall>r \<in> set rs. explained r"
    and shown: "\<forall>rs. SetGeneratedTests rs \<in> set new \<longrightarrow> (\<forall>r \<in> set rs. explained r)"
    by blast+
  have all: "\<forall>r \<in> set (rs @ [?r]). explained r" using r old by auto
  have "\<forall>r \<in> set rs'. explained r"
    if "SetGeneratedTests rs' \<in> set (new @ generating tcIds j (tcIds ! j) #
           turn_effects env st tcIds j (tcIds ! j) (tr @ new) @ [SetGeneratedTests (rs @ [?r])])"
    for rs'
  proof -
    from that consider "rs' = rs @ [?r]" | "SetGeneratedTests rs' \<in> set new"
      using turn_effects_no_results [of rs' env st tcIds j "tcIds ! j" "tr @ new"]
      by (auto simp: generating_def)
    then show ?thesis
    proof cases
      case 1
      with all show ?thesis by simp
    next
      case 2
      with shown show ?thesis by blast
    qed
  qed
  with all show ?case by blast
next
  case 2
  show ?case by simp
qed

lemma handleGenerate_effects_rejected:
  assumes "\<not> canGenerate st"
  shows "\<exists>msg. effects (handleGenerate env st) tr = [Alert msg]"
proof -
  from assms have "parseTestCaseIds (testCaseIds st) = [] \<or> js_trim (outputFolder st) = []"
    by (auto simp: canGenerate_def)
  from handleGenerate_rejected [OF this, of env tr] show ?thesis
    by (simp add: effects_def)
qed

lemma published_results_explained:
  assumes "persistence_contract env"
    and "SetGeneratedTests rs \<in> set (effects (handleGenerate env st) tr)" and "r \<in> set rs"
  shows "explained r"
proof (cases "canGenerate st")
  case False
  from handleGenerate_effects_rejected [OF this, of env tr] assms(2) show ?thesis by auto
next
  case True
  let ?ids = "parseTestCaseIds (testCaseIds st)"
  from batch_results_explained [OF assms(1), of st ?ids "tr @ starting ?ids"]
  obtain results new where
    run: "generateLoop env st ?ids 0 [] (tr @ starting ?ids) =
            (Inr results, (tr @ starting ?ids) @ new)"
    and inv: "\<forall>rs. SetGeneratedTests rs \<in> set new \<longrightarrow> (\<forall>r \<in> set rs. explained r)"
    by blast
  from handleGenerate_accepted [OF True run]
  have "effects (handleGenerate env st) tr = starting ?ids @ new @ completing st ?ids results"
    by (simp add: effects_def)
  with assms(2) have "rs = [] \<or> SetGeneratedTests rs \<in> set new"
    by (auto simp: starting_def completing_def)
  with assms(3) have "SetGeneratedTests rs \<in> set new" by auto
  with inv assms(3) show ?thesis by blast
qed

text \<open>
  C3.  Let the persistence service keep its contract.  Then every result the batch
  produces, in the list the loop returns and in every list it publishes with
  \<open>setGeneratedTests\<close>, satisfies: if \<open>saved\<close> is true, \<open>savedPath\<close> is a string that
  is not empty; if \<open>saved\<close> is false, the result carries \<open>error\<close> or \<open>saveError\<close>.
\<close>

theorem saved_flag_explained:
  assumes "persistence_contract env"
  shows "(\<exists>results tr'. generateLoop env st tcIds 0 [] tr = (Inr results, tr') \<and>
            (\<forall>r \<in> set results.
               (saved r \<longrightarrow> (\<exists>p. savedPath r = JStr p \<and> p \<noteq> [])) \<and>
               (\<not> saved r \<longrightarrow> error r \<noteq> None \<or> saveError r \<noteq> None)))
       \<and> (\<forall>rs. SetGeneratedTests rs \<in> set (effects (handleGenerate env st) tr) \<longrightarrow>
            (\<forall>r \<in> set rs.
               (saved r \<longrightarrow> (\<exists>p. savedPath r = JStr p \<and> p \<noteq> [])) \<and>
               (\<not> saved r \<longrightarrow> error r \<noteq> None \<or> saveError r \<noteq> None)))"
proof -
  from batch_results_explained [OF assms, of st tcIds tr]
  have "\<exists>results tr'. generateLoop env st tcIds 0 [] tr = (Inr results, tr') \<and>
          (\<forall>r \<in> set results. explained r)"
    by blast
  moreover have "\<forall>rs. SetGeneratedTests rs \<in> set (effects (handleGenerate env st) tr) \<longrightarrow>
          (\<forall>r \<in> set rs. explained r)"
    using published_results_explained [OF assms] by blast
  ultimately show ?thesis unfolding explained_def by blast
qed

lemma env_ok_contract: "persistence_contract env_ok"
  by (simp add: persistence_contract_def env_ok_def save_request_def)

theorem saved_flag_explained_witness:
  "persistence_contract env_ok
   \<and> saved (hd (generatedTests (gen_after gen_one (effects (handleGenerate env_ok gen_one) []))))
   \<and> (\<exists>p. savedPath (hd (generatedTests
              (gen_after gen_one (effects (handleGenerate env_ok gen_one) [])))) = JStr p \<and> p \<noteq> [])"
proof -
  let ?rs = "generatedTests (gen_after gen_one (effects (handleGenerate env_ok gen_one) []))"
  have shown: "SetGeneratedTests ?rs \<in> set (effects (handleGenerate env_ok gen_one) [])"
    by code_simp
  have member: "hd ?rs \<in> set ?rs"
    by code_simp
  have saved: "saved (hd ?rs)"
    by code_simp
  from saved_flag_explained [OF env_ok_contract, of gen_one "[]" "[]"]
  have "\<forall>rs. SetGeneratedTests rs \<in> set (effects (handleGenerate env_ok gen_one) []) \<longrightarrow>
            (\<forall>r \<in> set rs.
               (saved r \<longrightarrow> (\<exists>p. savedPath r = JStr p \<and> p \<noteq> [])) \<and>
               (\<not> saved r \<longrightarrow> error r \<noteq> None \<or> saveError r \<noteq> None))"
    by (rule conjunct2)
  with shown member saved
  have "\<exists>p. savedPath (hd ?rs) = JStr p \<and> p \<noteq> []"
    by blast
  with env_ok_contract saved show ?thesis by blast
qed

section \<open>A generation service that answers with an error status\<close>

text \<open>
  C1.  The claim fails on the code for a generation request that is answered with an
  error status and a JSON body: \<open>handleGenerate\<close> does not look at \<open>response.ok\<close> (as
  \<open>saveTestFile\<close>, \<open>handleReview\<close> and \<open>handleImprove\<close> do), finds no \<open>test_code\<close>,
  and records the identifier as a success whose script is the placeholder text, which it
  saves.  The run below is the batch \<open>TC-1\<close> with such an answer.
\<close>

theorem generation_error_status_recorded_as_success:
  "map (\<lambda>r. (tcId r, status r, error r, saved r, savedPath r))
     (generatedTests (gen_after gen_one (effects (handleGenerate env_generation_refused gen_one) [])))
   = [(''TC-1'', ''success'', None, True, JStr ''out/saved.robot'')]"
  by code_simp

text \<open>
  What the code does for the failures it catches: when the request to the generation
  service is rejected, or its body does not decode, or decodes to \<open>null\<close>, the turn
  records the result of the \<open>catch\<close> branch.
\<close>

lemma generation_exception_recorded:
  assumes "fst (generateOne env st tcIds i tcid (tr @ [generating tcIds i tcid])) = Inl e"
  shows "turn_result env st tcIds i tcid tr = error_result tcid e
       \<and> status (error_result tcid e) = ''error''
       \<and> error (error_result tcid e) = Some (message e)
       \<and> \<not> saved (error_result tcid e)"
  using assms by (simp add: turn_result_def error_result_def)

section \<open>A test case that cannot be fetched\<close>

lemma turn_effects_start:
  "\<exists>rest. turn_effects env st tcIds i tcid tr =
      Fetch (testcase_request tcid) #
      testcase_warnings (env (tr @ [generating tcIds i tcid]) (testcase_request tcid)) @
      Fetch (generation_request st tcid
               (testcase_data (env (tr @ [generating tcIds i tcid]) (testcase_request tcid)))) # rest"
  by (simp add: turn_effects_def effects_def generateOne_apply Let_def split: sum.splits)

lemma testcase_data_failed: "fetch_failed out \<Longrightarrow> testcase_data out = JNull"
  by (cases out) (simp_all add: testcase_data_def)

lemma testcase_warnings_are_warnings:
  assumes "ev \<in> set (testcase_warnings out)"
  shows "\<exists>m e. ev = ConsoleWarn m e"
proof (cases out)
  case (NetworkFailure m)
  with assms show ?thesis by (simp add: testcase_warnings_def)
next
  case (Response ok body)
  with assms show ?thesis by (cases body; cases ok) (simp_all add: testcase_warnings_def)
qed

lemma failed_fetch_turn:
  assumes "fetch_failed
             (env (tr @ [SetCurrentProgress (turn_progress tcIds i tcid ''Generating...'')])
                  (testcase_request tcid))"
  shows "(\<exists>r w rest.
            iteration env st tcIds i results tcid tr =
              (Inr (results @ [r]),
               tr @ SetCurrentProgress (turn_progress tcIds i tcid ''Generating...'') #
                 Fetch (testcase_request tcid) # w @
                 Fetch (generation_request st tcid JNull) # rest @
                 [SetGeneratedTests (results @ [r])])
            \<and> tcId r = tcid \<and> (\<forall>ev \<in> set w. \<exists>m e. ev = ConsoleWarn m e))
       \<and> generation_description tcid JNull =
           ''Generate Robot Framework test for Test Case ID: '' @ tcid
       \<and> (\<exists>results' tr'. generateLoop env st tcIds 0 [] tr0 = (Inr results', tr') \<and>
             length results' = length tcIds)"
proof (intro conjI)
  let ?out = "env (tr @ [generating tcIds i tcid]) (testcase_request tcid)"
  from assms have null: "testcase_data ?out = JNull"
    by (simp add: testcase_data_failed generating_def)
  from turn_effects_start [of env st tcIds i tcid tr] null
  obtain rest where
    "turn_effects env st tcIds i tcid tr =
       Fetch (testcase_request tcid) # testcase_warnings ?out @
       Fetch (generation_request st tcid JNull) # rest"
    by auto
  then have run: "iteration env st tcIds i results tcid tr =
      (Inr (results @ [turn_result env st tcIds i tcid tr]),
       tr @ SetCurrentProgress (turn_progress tcIds i tcid ''Generating...'') #
         Fetch (testcase_request tcid) # testcase_warnings ?out @
         Fetch (generation_request st tcid JNull) # rest @
         [SetGeneratedTests (results @ [turn_result env st tcIds i tcid tr])])"
    by (simp add: iteration_apply generating_def)
  have warn: "\<forall>ev \<in> set (testcase_warnings ?out). \<exists>m e. ev = ConsoleWarn m e"
    using testcase_warnings_are_warnings by blast
  show "\<exists>r w rest.
            iteration env st tcIds i results tcid tr =
              (Inr (results @ [r]),
               tr @ SetCurrentProgress (turn_progress tcIds i tcid ''Generating...'') #
                 Fetch (testcase_request tcid) # w @
                 Fetch (generation_request st tcid JNull) # rest @
                 [SetGeneratedTests (results @ [r])])
            \<and> tcId r = tcid \<and> (\<forall>ev \<in> set w. \<exists>m e. ev = ConsoleWarn m e)"
    by (rule exI [where x = "turn_result env st tcIds i tcid tr"],
        rule exI [where x = "testcase_warnings ?out"], rule exI [where x = rest])
       (intro conjI run turn_result_tcId warn)
next
  show "generation_description tcid JNull =
           ''Generate Robot Framework test for Test Case ID: '' @ tcid"
    by (simp add: generation_description_def)
next
  from batch_run [of env st tcIds tr0]
  obtain results' new where "generateLoop env st tcIds 0 [] tr0 = (Inr results', tr0 @ new)"
    "map tcId results' = tcIds" by blast
  moreover from this have "length results' = length tcIds" by (metis length_map)
  ultimately show "\<exists>results' tr'. generateLoop env st tcIds 0 [] tr0 = (Inr results', tr') \<and>
             length results' = length tcIds" by blast
qed

section \<open>Progress reports\<close>














section \<open>Duplicate identifiers\<close>

lemma testcase_request_inj [simp]: "testcase_request x = testcase_request y \<longleftrightarrow> x = y"
  by (simp add: testcase_request_def)

lemma request_kinds [simp]:
  "testcase_request x \<noteq> generation_request st y d"
  "testcase_request x \<noteq> save_request f n t"
  "generation_request st y d \<noteq> testcase_request x"
  "save_request f n t \<noteq> testcase_request x"
  "is_generate_request (Fetch (generation_request st y d))"
  "\<not> is_generate_request (Fetch (save_request f n t))"
  "\<not> is_generate_request (Fetch (testcase_request x))"
  "is_save_request (Fetch (save_request f n t))"
  "\<not> is_save_request (Fetch (generation_request st y d))"
  "\<not> is_save_request (Fetch (testcase_request x))"
  by (simp_all add: testcase_request_def generation_request_def save_request_def)

lemma warnings_are_no_requests [simp]:
  "filter (\<lambda>ev. ev = Fetch req) (testcase_warnings out) = []"
  "filter is_generate_request (testcase_warnings out) = []"
  "filter is_save_request (testcase_warnings out) = []"
proof -
  have "\<forall>ev \<in> set (testcase_warnings out). \<exists>m e. ev = ConsoleWarn m e"
    using testcase_warnings_are_warnings by blast
  then show "filter (\<lambda>ev. ev = Fetch req) (testcase_warnings out) = []"
    "filter is_generate_request (testcase_warnings out) = []"
    "filter is_save_request (testcase_warnings out) = []"
    by (auto simp: filter_empty_conv)
qed

lemma turn_testcase_fetches:
  "length (filter (\<lambda>ev. ev = Fetch (testcase_request x)) (turn_effects env st tcIds i tcid tr)) =
     (if x = tcid then 1 else 0)"
  by (simp add: turn_effects_def effects_def generateOne_apply Let_def split: sum.splits)

lemma turn_generate_requests:
  "length (filter is_generate_request (turn_effects env st tcIds i tcid tr)) = 1"
  by (simp add: turn_effects_def effects_def generateOne_apply Let_def split: sum.splits)

lemma turn_save_requests:
  "length (filter is_save_request (turn_effects env st tcIds i tcid tr)) =
     (if status (turn_result env st tcIds i tcid tr) = ''success'' then 1 else 0)"
  by (simp add: turn_effects_def turn_result_def effects_def generateOne_apply Let_def
        error_result_def split: sum.splits)

lemma count_list_take_Suc:
  "j < length xs \<Longrightarrow>
     count_list (take (Suc j) xs) x = count_list (take j xs) x + (if xs ! j = x then 1 else 0)"
  by (simp add: take_Suc_conv_app_nth)

lemma batch_counts:
  "\<exists>results new. generateLoop env st tcIds 0 [] tr = (Inr results, tr @ new) \<and>
     ((\<forall>x. length (filter (\<lambda>r. tcId r = x) results) = count_list tcIds x) \<and>
      (\<forall>x. length (filter (\<lambda>ev. ev = Fetch (testcase_request x)) new) = count_list tcIds x) \<and>
      length (filter is_generate_request new) = length tcIds \<and>
      length (filter is_save_request new) =
        length (filter (\<lambda>r. status r = ''success'') results))"
proof -
  have "\<exists>results new. generateLoop env st tcIds 0 [] tr = (Inr results, tr @ new) \<and>
     ((\<forall>x. length (filter (\<lambda>r. tcId r = x) results) = count_list (take (length tcIds) tcIds) x) \<and>
      (\<forall>x. length (filter (\<lambda>ev. ev = Fetch (testcase_request x)) new) =
            count_list (take (length tcIds) tcIds) x) \<and>
      length (filter is_generate_request new) = length tcIds \<and>
      length (filter is_save_request new) =
        length (filter (\<lambda>r. status r = ''success'') results))"
  proof (rule generateLoop_effects
         [where P = "\<lambda>j rs new.
            (\<forall>x. length (filter (\<lambda>r. tcId r = x) rs) = count_list (take j tcIds) x) \<and>
            (\<forall>x. length (filter (\<lambda>ev. ev = Fetch (testcase_request x)) new) =
                  count_list (take j tcIds) x) \<and>
            length (filter is_generate_request new) = j \<and>
            length (filter is_save_request new) =
              length (filter (\<lambda>r. status r = ''success'') rs)"],
       goal_cases)
    case (1 j rs new)
    then show ?case
      by (simp add: count_list_take_Suc turn_testcase_fetches turn_generate_requests
            turn_save_requests generating_def)
  next
    case 2
    show ?case by simp
  qed
  then show ?thesis by simp
qed

lemma iteration_effects:
  "effects (iteration env st tcIds i results tcid) tr =
     generating tcIds i tcid # turn_effects env st tcIds i tcid tr @
       [SetGeneratedTests (results @ [turn_result env st tcIds i tcid tr])]"
  by (simp add: effects_def iteration_apply)

section \<open>The handlers of the Review tab\<close>

lemma handleImprove_apply:
  "handleImprove env st tr =
     (case getCurrentFile st of
        None \<Rightarrow> (Inr (), tr)
      | Some file \<Rightarrow>
          if js_trim (improvementRequest st) = [] then (Inr (), tr)
          else (Inr (),
                tr @ [SetIsImproving True, SetImprovedCode (JStr []),
                      Fetch (improve_request st file),
                      SetImprovedCode
                        (improve_outcome
                           (env (tr @ [SetIsImproving True, SetImprovedCode (JStr [])])
                              (improve_request st file))),
                      SetIsImproving False]))"
  by (simp add: handleImprove_def io_apply response_json_def get_prop_def improve_outcome_def
      split: option.splits fetch_outcome.splits sum.splits)

lemma handleDryRun_apply:
  "handleDryRun env st tr =
     (case getCurrentFile st of
        None \<Rightarrow> (Inr (), tr)
      | Some file \<Rightarrow>
          (Inr (),
           tr @ [SetIsDryRunning True, SetDryRunResult JNull,
                 Fetch (Post ''/api/test/dry-run'' (JObj [(''test_code'', content file)])),
                 SetDryRunResult
                   (dry_run_outcome
                      (env (tr @ [SetIsDryRunning True, SetDryRunResult JNull])
                         (Post ''/api/test/dry-run'' (JObj [(''test_code'', content file)])))),
                 SetIsDryRunning False]))"
  by (simp add: handleDryRun_def io_apply response_json_def dry_run_outcome_def
      split: option.splits fetch_outcome.splits sum.splits)

lemma handleImprove_effects:
  "effects (handleImprove env st) tr = [] \<or>
   (\<exists>req v. effects (handleImprove env st) tr =
      [SetIsImproving True, SetImprovedCode (JStr []), Fetch req, SetImprovedCode v,
       SetIsImproving False])"
  by (simp add: effects_def handleImprove_apply split: option.splits)

lemma applyImprovement_apply:
  "applyImprovement st tr =
     (if truthy (improvedCode st) \<and> selectedFileIndex st < length (uploadedFiles st)
      then (Inr (),
            tr @ [SetUploadedFiles
                    ((uploadedFiles st)[selectedFileIndex st :=
                       (uploadedFiles st ! selectedFileIndex st)\<lparr>content := improvedCode st\<rparr>]),
                  SetImprovedCode (JStr []), SetReviewResult JNull, SetDryRunResult JNull])
      else (Inr (), tr))"
  by (simp add: applyImprovement_def io_apply Let_def)

text \<open>
  C9.  \<open>handleImprove\<close> never throws and never touches the uploaded files: it issues no
  update of \<open>uploadedFiles\<close>, so after it the files, and the content of the selected
  one, are as before.  \<open>applyImprovement\<close>, when there is improved code and a selected
  file, replaces the content of the selected file by the improved code, keeps its name,
  its test case id and its size, keeps every other file and the number of files, and
  resets the improved code, the review result and the dry-run result; otherwise it does
  nothing.
\<close>

theorem improve_then_apply:
  "fst (handleImprove env st tr) = Inr ()
   \<and> (\<forall>fs. SetUploadedFiles fs \<notin> set (effects (handleImprove env st) tr))
   \<and> uploadedFiles (review_after st (effects (handleImprove env st) tr)) = uploadedFiles st
   \<and> (truthy (improvedCode st) \<and> selectedFileIndex st < length (uploadedFiles st) \<longrightarrow>
        uploadedFiles (review_after st (effects (applyImprovement st) tr)) =
          (uploadedFiles st)[selectedFileIndex st :=
             (uploadedFiles st ! selectedFileIndex st)\<lparr>content := improvedCode st\<rparr>]
        \<and> content (uploadedFiles (review_after st (effects (applyImprovement st) tr))
                     ! selectedFileIndex st) = improvedCode st
        \<and> f_name (uploadedFiles (review_after st (effects (applyImprovement st) tr))
                     ! selectedFileIndex st) = f_name (uploadedFiles st ! selectedFileIndex st)
        \<and> f_tcId (uploadedFiles (review_after st (effects (applyImprovement st) tr))
                     ! selectedFileIndex st) = f_tcId (uploadedFiles st ! selectedFileIndex st)
        \<and> f_size (uploadedFiles (review_after st (effects (applyImprovement st) tr))
                     ! selectedFileIndex st) = f_size (uploadedFiles st ! selectedFileIndex st)
        \<and> length (uploadedFiles (review_after st (effects (applyImprovement st) tr))) =
            length (uploadedFiles st)
        \<and> (\<forall>j. j \<noteq> selectedFileIndex st \<longrightarrow>
              uploadedFiles (review_after st (effects (applyImprovement st) tr)) ! j =
              uploadedFiles st ! j)
        \<and> improvedCode (review_after st (effects (applyImprovement st) tr)) = JStr []
        \<and> reviewResult (review_after st (effects (applyImprovement st) tr)) = JNull
        \<and> dryRunResult (review_after st (effects (applyImprovement st) tr)) = JNull
        \<and> selectedFileIndex (review_after st (effects (applyImprovement st) tr)) =
            selectedFileIndex st)
   \<and> (\<not> (truthy (improvedCode st) \<and> selectedFileIndex st < length (uploadedFiles st)) \<longrightarrow>
        effects (applyImprovement st) tr = [] \<and>
        review_after st (effects (applyImprovement st) tr) = st)"
proof (intro conjI impI)
  show "fst (handleImprove env st tr) = Inr ()"
    by (simp add: handleImprove_apply split: option.splits)
  show "\<forall>fs. SetUploadedFiles fs \<notin> set (effects (handleImprove env st) tr)"
    using handleImprove_effects [of env st tr] by auto
  show "uploadedFiles (review_after st (effects (handleImprove env st) tr)) = uploadedFiles st"
    using handleImprove_effects [of env st tr] by (auto simp: review_after_def)
next
  assume "\<not> (truthy (improvedCode st) \<and> selectedFileIndex st < length (uploadedFiles st))"
  then have "effects (applyImprovement st) tr = []"
    by (simp add: effects_def applyImprovement_apply)
  then show "effects (applyImprovement st) tr = []"
    and "review_after st (effects (applyImprovement st) tr) = st"
    by (simp_all add: review_after_def)
next
  assume guard: "truthy (improvedCode st) \<and> selectedFileIndex st < length (uploadedFiles st)"
  then have eff: "effects (applyImprovement st) tr =
      [SetUploadedFiles
         ((uploadedFiles st)[selectedFileIndex st :=
            (uploadedFiles st ! selectedFileIndex st)\<lparr>content := improvedCode st\<rparr>]),
       SetImprovedCode (JStr []), SetReviewResult JNull, SetDryRunResult JNull]"
    by (simp add: effects_def applyImprovement_apply)
  show "uploadedFiles (review_after st (effects (applyImprovement st) tr)) =
          (uploadedFiles st)[selectedFileIndex st :=
             (uploadedFiles st ! selectedFileIndex st)\<lparr>content := improvedCode st\<rparr>]"
    by (simp add: eff review_after_def)
  show "content (uploadedFiles (review_after st (effects (applyImprovement st) tr))
                     ! selectedFileIndex st) = improvedCode st"
    using guard by (simp add: eff review_after_def)
  show "f_name (uploadedFiles (review_after st (effects (applyImprovement st) tr))
                     ! selectedFileIndex st) = f_name (uploadedFiles st ! selectedFileIndex st)"
    using guard by (simp add: eff review_after_def)
  show "f_tcId (uploadedFiles (review_after st (effects (applyImprovement st) tr))
                     ! selectedFileIndex st) = f_tcId (uploadedFiles st ! selectedFileIndex st)"
    using guard by (simp add: eff review_after_def)
  show "f_size (uploadedFiles (review_after st (effects (applyImprovement st) tr))
                     ! selectedFileIndex st) = f_size (uploadedFiles st ! selectedFileIndex st)"
    using guard by (simp add: eff review_after_def)
  show "length (uploadedFiles (review_after st (effects (applyImprovement st) tr))) =
            length (uploadedFiles st)"
    by (simp add: eff review_after_def)
  show "\<forall>j. j \<noteq> selectedFileIndex st \<longrightarrow>
              uploadedFiles (review_after st (effects (applyImprovement st) tr)) ! j =
              uploadedFiles st ! j"
    by (simp add: eff review_after_def)
  show "improvedCode (review_after st (effects (applyImprovement st) tr)) = JStr []"
    by (simp add: eff review_after_def)
  show "reviewResult (review_after st (effects (applyImprovement st) tr)) = JNull"
    by (simp add: eff review_after_def)
  show "dryRunResult (review_after st (effects (applyImprovement st) tr)) = JNull"
    by (simp add: eff review_after_def)
  show "selectedFileIndex (review_after st (effects (applyImprovement st) tr)) =
            selectedFileIndex st"
    by (simp add: eff review_after_def)
qed

theorem improve_then_apply_witness:
  "truthy (improvedCode review_one) \<and> selectedFileIndex review_one < length (uploadedFiles review_one)
   \<and> uploadedFiles (review_after review_one (effects (handleImprove env_ok review_one) [])) =
       [robot_file]
   \<and> uploadedFiles (review_after review_one (effects (applyImprovement review_one) [])) =
       [robot_file\<lparr>content := JStr ''*** Settings ***''\<rparr>]
   \<and> reviewResult (review_after review_one (effects (applyImprovement review_one) [])) = JNull"
proof -
  have guard: "truthy (improvedCode review_one) \<and>
               selectedFileIndex review_one < length (uploadedFiles review_one)"
    by (simp add: review_one_def)
  from improve_then_apply [of env_ok review_one "[]"] guard
  have "uploadedFiles (review_after review_one (effects (handleImprove env_ok review_one) [])) =
          uploadedFiles review_one"
    and "uploadedFiles (review_after review_one (effects (applyImprovement review_one) [])) =
          (uploadedFiles review_one)[selectedFileIndex review_one :=
             (uploadedFiles review_one ! selectedFileIndex review_one)
               \<lparr>content := improvedCode review_one\<rparr>]"
    and "reviewResult (review_after review_one (effects (applyImprovement review_one) [])) = JNull"
    by blast+
  with guard show ?thesis by (simp add: review_one_def)
qed

section \<open>A syntax check that answers with an error status\<close>

text \<open>
  C4.  The claim fails on the code for a dry-run request that is answered with an error
  status and a JSON body: \<open>handleDryRun\<close> does not look at \<open>response.ok\<close> (as
  \<open>handleReview\<close> and \<open>handleImprove\<close> of the same component do) and publishes the body
  as the result.  In the run below the result is the object with the only field
  \<open>detail\<close>; it has no \<open>success\<close>, no \<open>output\<close> and no \<open>errors\<close>, and it is not the
  object the \<open>catch\<close> branch makes of a failure.
\<close>

theorem dry_run_error_status_not_converted:
  "dryRunResult (review_after review_one (effects (handleDryRun env_dry_run_refused review_one) [])) =
     JObj [(''detail'', JStr ''robot is not installed'')]
   \<and> js_prop (dryRunResult (review_after review_one
                (effects (handleDryRun env_dry_run_refused review_one) []))) ''success'' = JUndefined
   \<and> js_prop (dryRunResult (review_after review_one
                (effects (handleDryRun env_dry_run_refused review_one) []))) ''errors'' = JUndefined
   \<and> dryRunResult (review_after review_one (effects (handleDryRun env_dry_run_refused review_one) []))
       \<noteq> dry_run_failure (PlainError ''robot is not installed'')"
  by code_simp

text \<open>
  What the code does keep of the claim: the handler never throws, and a request that is
  rejected, or whose body does not decode, is turned into the failure object.
\<close>

lemma handleDryRun_never_throws: "fst (handleDryRun env st tr) = Inr ()"
  by (simp add: handleDryRun_apply split: option.splits)

lemma handleDryRun_exception_converted:
  assumes "getCurrentFile st = Some file"
    and "env (tr @ [SetIsDryRunning True, SetDryRunResult JNull])
           (Post ''/api/test/dry-run'' (JObj [(''test_code'', content file)])) = out"
    and "out = NetworkFailure m \<or> out = Response ok (Inl m)"
  shows "dryRunResult (review_after st (effects (handleDryRun env st) tr)) =
           JObj [(''success'', JBool False), (''output'', JStr (''Error: '' @ m)),
                 (''errors'', JArr [JStr m])]"
  using assms
  by (auto simp: effects_def handleDryRun_apply review_after_def dry_run_outcome_def
        dry_run_failure_def)

section \<open>The identifiers of a batch\<close>

lemma js_split_pieces:
  assumes "p \<in> set (js_split sep cur s)" and "c \<in> set p"
  shows "c \<in> set cur \<or> \<not> sep c"
  using assms
proof (induction sep cur s rule: js_split.induct)
  case (1 sep cur)
  then show ?case by simp
next
  case (2 sep cur d ds)
  show ?case
  proof (cases "sep d")
    case True
    with 2 show ?thesis by auto
  next
    case False
    with 2 have "c \<in> set (d # cur) \<or> \<not> sep c" by simp
    with False show ?thesis by auto
  qed
qed

lemma js_trim_subset: "set (js_trim s) \<subseteq> set s"
proof -
  have "set (dropWhile is_space (rev (dropWhile is_space s))) \<subseteq> set (rev (dropWhile is_space s))"
    by (meson set_dropWhileD subsetI)
  moreover have "set (dropWhile is_space s) \<subseteq> set s"
    by (meson set_dropWhileD subsetI)
  ultimately show ?thesis by (auto simp: js_trim_def)
qed

lemma parseTestCaseIds_chars:
  assumes "tcid \<in> set (parseTestCaseIds input)"
  shows "tcid \<noteq> []" and "\<forall>c \<in> set tcid. \<not> is_id_separator c"
proof -
  from assms obtain p where p: "p \<in> set (js_split is_id_separator [] input)"
    and trim: "tcid = js_trim p" and "tcid \<noteq> []"
    by (auto simp: parseTestCaseIds_def)
  then show "tcid \<noteq> []" by simp
  show "\<forall>c \<in> set tcid. \<not> is_id_separator c"
  proof
    fix c assume "c \<in> set tcid"
    with trim js_trim_subset have "c \<in> set p" by blast
    from js_split_pieces [OF p this] show "\<not> is_id_separator c" by simp
  qed
qed

lemma batch_of_parsed_ids:
  "\<exists>results new.
      generateLoop env st (parseTestCaseIds input) 0 [] tr = (Inr results, tr @ new) \<and>
      length results = length (parseTestCaseIds input) \<and>
      (\<forall>r \<in> set results. tcId r \<noteq> []) \<and>
      Fetch (testcase_request []) \<notin> set new"
proof -
  let ?ids = "parseTestCaseIds input"
  from batch_counts [of env st ?ids tr]
  obtain results new where
    run: "generateLoop env st ?ids 0 [] tr = (Inr results, tr @ new)"
    and fetches: "\<forall>x. length (filter (\<lambda>ev. ev = Fetch (testcase_request x)) new) = count_list ?ids x"
    by blast
  from batch_run [of env st ?ids tr] run
  have ids: "map tcId results = ?ids" by auto
  then have len: "length results = length ?ids" by (metis length_map)
  have "[] \<notin> set ?ids" using parseTestCaseIds_chars(1) by blast
  then have none: "count_list ?ids [] = 0" by (simp add: count_list_0_iff)
  have "tcId r \<noteq> []" if "r \<in> set results" for r
  proof -
    from that have "tcId r \<in> set (map tcId results)" by simp
    with ids parseTestCaseIds_chars(1) show ?thesis by metis
  qed
  moreover from fetches none
  have "length (filter (\<lambda>ev. ev = Fetch (testcase_request [])) new) = 0" by simp
  then have "Fetch (testcase_request []) \<notin> set new"
    by (auto simp: filter_empty_conv)
  ultimately show ?thesis using run len by blast
qed

text \<open>
  C10.  Every identifier that \<open>parseTestCaseIds\<close> returns is not empty and contains no
  comma, no space, no newline and no other white space.  So the loop over the parsed
  identifiers returns as many results as there are identifiers, none for an empty
  identifier, and never fetches the test case of an empty identifier.  When the request
  passes the checks of \<open>handleGenerate\<close>, the number of results it leaves in
  \<open>generatedTests\<close> is the number of identifiers parsed from the input, which is the
  count the form displays.
\<close>

theorem parsed_ids_are_clean:
  "(\<forall>tcid \<in> set (parseTestCaseIds input).
      tcid \<noteq> [] \<and>
      (\<forall>c \<in> set tcid. c \<noteq> CHR '','' \<and> c \<noteq> CHR '' '' \<and> c \<noteq> nl \<and> \<not> is_space c))
   \<and> (\<exists>results new.
        generateLoop env st (parseTestCaseIds input) 0 [] tr = (Inr results, tr @ new) \<and>
        length results = length (parseTestCaseIds input) \<and>
        (\<forall>r \<in> set results. tcId r \<noteq> []) \<and>
        Fetch (testcase_request []) \<notin> set new)
   \<and> (canGenerate st \<longrightarrow>
        length (generatedTests (gen_after st0 (effects (handleGenerate env st) tr))) =
          length (parseTestCaseIds (testCaseIds st)))"
proof (intro conjI ballI impI)
  fix tcid assume "tcid \<in> set (parseTestCaseIds input)"
  then show "tcid \<noteq> []" by (rule parseTestCaseIds_chars(1))
next
  fix tcid c assume "tcid \<in> set (parseTestCaseIds input)" and "c \<in> set tcid"
  with parseTestCaseIds_chars(2) have sep: "\<not> is_id_separator c" by blast
  then show "c \<noteq> CHR '',''" and "\<not> is_space c" by (auto simp: is_id_separator_def)
  from sep show "c \<noteq> CHR '' ''" and "c \<noteq> nl"
    by (auto simp: is_id_separator_def is_space_def nl_def)
next
  show "\<exists>results new.
        generateLoop env st (parseTestCaseIds input) 0 [] tr = (Inr results, tr @ new) \<and>
        length results = length (parseTestCaseIds input) \<and>
        (\<forall>r \<in> set results. tcId r \<noteq> []) \<and>
        Fetch (testcase_request []) \<notin> set new"
    by (rule batch_of_parsed_ids)
next
  assume "canGenerate st"
  from handleGenerate_run [OF this, of env tr]
  obtain results pre where
    run: "handleGenerate env st tr =
             (Inr (), tr @ starting (parseTestCaseIds (testCaseIds st)) @ pre @
                SetGeneratedTests results # completing st (parseTestCaseIds (testCaseIds st)) results)"
    and ids: "map tcId results = parseTestCaseIds (testCaseIds st)"
    by blast
  have "effects (handleGenerate env st) tr =
          starting (parseTestCaseIds (testCaseIds st)) @ pre @
          SetGeneratedTests results # completing st (parseTestCaseIds (testCaseIds st)) results"
    using run by (simp add: effects_def)
  then have "generatedTests (gen_after st0 (effects (handleGenerate env st) tr)) = results"
    by (simp only: generatedTests_after_run)
  with ids show "length (generatedTests (gen_after st0 (effects (handleGenerate env st) tr))) =
          length (parseTestCaseIds (testCaseIds st))"
    by (metis length_map)
qed

theorem parsed_ids_are_clean_witness:
  "''TC-2'' \<in> set (parseTestCaseIds ''TC-1, TC-2'')
   \<and> CHR ''2'' \<in> set ''TC-2''
   \<and> ''TC-2'' \<noteq> [] \<and> CHR ''2'' \<noteq> CHR '','' \<and> \<not> is_space (CHR ''2'')
   \<and> canGenerate gen_two
   \<and> length (generatedTests (gen_after gen_two (effects (handleGenerate env_ok gen_two) []))) =
       length (parseTestCaseIds (testCaseIds gen_two))"
proof -
  have member: "''TC-2'' \<in> set (parseTestCaseIds ''TC-1, TC-2'')"
    by (simp add: parse_two)
  have char: "CHR ''2'' \<in> set ''TC-2''"
    by simp
  have can: "canGenerate gen_two"
    by code_simp
  note clean = parsed_ids_are_clean [of "''TC-1, TC-2''" env_ok gen_two "[]" gen_two]
  from clean have "\<forall>tcid \<in> set (parseTestCaseIds ''TC-1, TC-2'').
      tcid \<noteq> [] \<and>
      (\<forall>c \<in> set tcid. c \<noteq> CHR '','' \<and> c \<noteq> CHR '' '' \<and> c \<noteq> nl \<and> \<not> is_space c)"
    by (rule conjunct1)
  from this [rule_format, OF member]
  have "''TC-2'' \<noteq> []" and "\<forall>c \<in> set ''TC-2''. c \<noteq> CHR '','' \<and> c \<noteq> CHR '' '' \<and> c \<noteq> nl \<and> \<not> is_space c"
    by blast+
  from this(2) [rule_format, OF char] have "CHR ''2'' \<noteq> CHR '',''" and "\<not> is_space (CHR ''2'')"
    by blast+
  moreover from clean can
  have "length (generatedTests (gen_after gen_two (effects (handleGenerate env_ok gen_two) []))) =
       length (parseTestCaseIds (testCaseIds gen_two))"
    by blast
  ultimately show ?thesis using member char can by blast
qed

section \<open>The prompt of a turn without test case\<close>

text \<open>
  C6.  In any turn of the loop, whatever happened before it: when the fetch of the test
  case fails (the request is rejected, or the answer has a status that is not ok), nothing
  is thrown and \<open>testCaseData\<close> stays \<open>null\<close>; the turn goes on to the request to
  \<open>/api/test/generate-ai\<close>, whose body carries as \<open>description\<close> the prompt made of
  the bare identifier, \<open>Generate Robot Framework test for Test Case ID:\<close> followed by the
  identifier, next to the test type, the model and the automation context; and the turn ends
  with a result for the identifier.  The batch is never cut short: the loop returns a
  result for every identifier.
\<close>

theorem failed_fetch_degrades_prompt:
  assumes "fetch_failed
             (env (tr @ [SetCurrentProgress (turn_progress tcIds i tcid ''Generating...'')])
                  (testcase_request tcid))"
  shows "(\<exists>r w rest.
            iteration env st tcIds i results tcid tr =
              (Inr (results @ [r]),
               tr @ SetCurrentProgress (turn_progress tcIds i tcid ''Generating...'') #
                 Fetch (Get (''/api/codebeamer/testcase/'' @ tcid)) # w @
                 Fetch (Post ''/api/test/generate-ai''
                   (JObj [(''description'',
                             JStr (''Generate Robot Framework test for Test Case ID: '' @ tcid)),
                          (''test_type'', JStr ''automotive''),
                          (''model'', JStr (selectedModel st)),
                          (''automation_context'',
                             if mdContent st = [] then JNull else JStr (mdContent st))])) #
                 rest @ [SetGeneratedTests (results @ [r])])
            \<and> tcId r = tcid \<and> (\<forall>ev \<in> set w. \<exists>m e. ev = ConsoleWarn m e))
       \<and> fst (fetchTestCase env tcid
                 (tr @ [SetCurrentProgress (turn_progress tcIds i tcid ''Generating...'')])) =
           Inr JNull
       \<and> (\<exists>results' tr'. generateLoop env st tcIds 0 [] tr0 = (Inr results', tr') \<and>
             length results' = length tcIds)"
proof -
  have req: "generation_request st tcid JNull =
     Post ''/api/test/generate-ai''
       (JObj [(''description'',
                 JStr (''Generate Robot Framework test for Test Case ID: '' @ tcid)),
              (''test_type'', JStr ''automotive''),
              (''model'', JStr (selectedModel st)),
              (''automation_context'',
                 if mdContent st = [] then JNull else JStr (mdContent st))])"
    by (simp add: generation_request_def generation_description_def js_or_def)
  have tc: "testcase_request tcid = Get (''/api/codebeamer/testcase/'' @ tcid)"
    by (simp add: testcase_request_def)
  have null: "fst (fetchTestCase env tcid
                 (tr @ [SetCurrentProgress (turn_progress tcIds i tcid ''Generating...'')])) =
           Inr JNull"
    using assms by (simp add: fetchTestCase_apply testcase_data_failed)
  from failed_fetch_turn
         [where env = env and tr = tr and tcIds = tcIds and i = i and tcid = tcid and st = st
            and results = results and ?tr0.0 = tr0, OF assms]
       null
  show ?thesis unfolding req tc by blast
qed


theorem failed_fetch_degrades_prompt_witness:
  "fetch_failed
     (env_no_testcase ([] @ [SetCurrentProgress (turn_progress [''TC-1''] 0 ''TC-1'' ''Generating...'')])
        (testcase_request ''TC-1''))
   \<and> ((\<exists>r w rest.
         iteration env_no_testcase gen_one [''TC-1''] 0 [] ''TC-1'' [] =
           (Inr ([] @ [r]),
            [] @ SetCurrentProgress (turn_progress [''TC-1''] 0 ''TC-1'' ''Generating...'') #
              Fetch (Get (''/api/codebeamer/testcase/'' @ ''TC-1'')) # w @
              Fetch (Post ''/api/test/generate-ai''
                (JObj [(''description'',
                          JStr (''Generate Robot Framework test for Test Case ID: '' @ ''TC-1'')),
                       (''test_type'', JStr ''automotive''),
                       (''model'', JStr (selectedModel gen_one)),
                       (''automation_context'',
                          if mdContent gen_one = [] then JNull else JStr (mdContent gen_one))])) #
              rest @ [SetGeneratedTests ([] @ [r])])
         \<and> tcId r = ''TC-1'' \<and> (\<forall>ev \<in> set w. \<exists>m e. ev = ConsoleWarn m e))
       \<and> fst (fetchTestCase env_no_testcase ''TC-1''
                 ([] @ [SetCurrentProgress (turn_progress [''TC-1''] 0 ''TC-1'' ''Generating...'')])) =
           Inr JNull
       \<and> (\<exists>results' tr'. generateLoop env_no_testcase gen_one [''TC-1''] 0 [] [] = (Inr results', tr') \<and>
             length results' = length [''TC-1'']))"
proof -
  have failed: "fetch_failed
     (env_no_testcase ([] @ [SetCurrentProgress (turn_progress [''TC-1''] 0 ''TC-1'' ''Generating...'')])
        (testcase_request ''TC-1''))"
    by (simp add: env_no_testcase_def testcase_request_def)
  from failed
    failed_fetch_degrades_prompt
         [where env = env_no_testcase and tr = "[]" and tcIds = "[''TC-1'']" and i = 0
            and tcid = "''TC-1''" and st = gen_one and results = "[]" and ?tr0.0 = "[]", OF failed]
  show ?thesis by (rule conjI)
qed

section \<open>The file of a turn\<close>

lemma save_filename_of_name:
  assumes "save_filename tcid (js_or v (JStr tcid)) = Inr fn"
  shows "\<exists>s. js_or v (JStr tcid) = JStr s \<and>
           fn = replace_spaces tcid @ ''_'' @
                  (if replace_spaces s = [] then ''test'' else replace_spaces s)"
proof (cases "js_or v (JStr tcid)")
  case JUndefined
  then show ?thesis by (auto simp: js_or_def split: if_splits)
next
  case JNull
  then show ?thesis by (auto simp: js_or_def split: if_splits)
next
  case (JStr s)
  with assms show ?thesis by (simp add: save_filename_def)
qed (use assms in \<open>simp_all add: save_filename_def\<close>)

lemma fetchTestCase_value:
  "fst (fetchTestCase env tcid tr) = Inr (testcase_data (env tr (testcase_request tcid)))"
  by (simp add: fetchTestCase_apply)

lemma turn_save_request_name:
  assumes "ev \<in> set (turn_effects env st tcIds i tcid tr)" and "is_save_request ev"
  shows "\<exists>fn text. ev = Fetch (save_request (outputFolder st) fn text) \<and>
           save_filename tcid
             (js_or (opt_prop (testcase_data (env (tr @ [generating tcIds i tcid])
                                 (testcase_request tcid))) ''name'') (JStr tcid)) = Inr fn"
  using assms
  by (auto simp: turn_effects_def effects_def generateOne_apply Let_def
        dest: testcase_warnings_are_warnings split: sum.splits)

lemma turn_save_request_form:
  assumes "ev \<in> set (turn_effects env st tcIds i tcid tr)" and "is_save_request ev"
  shows "\<exists>s text.
           js_or (opt_prop (testcase_data (env (tr @ [generating tcIds i tcid]) (testcase_request tcid)))
                    ''name'') (JStr tcid) = JStr s \<and>
           ev = Fetch (save_request (outputFolder st)
                  (replace_spaces tcid @ ''_'' @
                     (if replace_spaces s = [] then ''test'' else replace_spaces s)) text)"
proof -
  let ?name = "js_or (opt_prop (testcase_data (env (tr @ [generating tcIds i tcid])
                                 (testcase_request tcid))) ''name'') (JStr tcid)"
  from turn_save_request_name [OF assms]
  obtain fn script where ev: "ev = Fetch (save_request (outputFolder st) fn script)"
    and fn: "save_filename tcid ?name = Inr fn"
    by blast
  from save_filename_of_name [OF fn]
  obtain s where "?name = JStr s"
    and "fn = replace_spaces tcid @ ''_'' @
                  (if replace_spaces s = [] then ''test'' else replace_spaces s)"
    by blast
  with ev show ?thesis by blast
qed


lemma turn_save_request:
  assumes "ev \<in> set (effects (iteration env st tcIds i results0 tcid) tr0)"
    and "is_save_request ev"
  shows "\<exists>d s script.
           fst (fetchTestCase env tcid
                  (tr0 @ [SetCurrentProgress (turn_progress tcIds i tcid ''Generating...'')])) = Inr d \<and>
           js_or (opt_prop d ''name'') (JStr tcid) = JStr s \<and>
           ev = Fetch (Post ''/api/test/save-file''
                  (JObj [(''folder_path'', JStr (outputFolder st)),
                         (''filename'',
                            JStr (replace_spaces tcid @ ''_'' @
                                    (if replace_spaces s = [] then ''test'' else replace_spaces s))),
                         (''content'', script)]))"
proof -
  from assms have "ev \<in> set (turn_effects env st tcIds i tcid tr0)"
    by (auto simp: iteration_effects generating_def)
  from turn_save_request_form [OF this assms(2)]
  obtain s script where
    "js_or (opt_prop (testcase_data (env (tr0 @ [generating tcIds i tcid]) (testcase_request tcid)))
                    ''name'') (JStr tcid) = JStr s"
    and "ev = Fetch (save_request (outputFolder st)
                  (replace_spaces tcid @ ''_'' @
                     (if replace_spaces s = [] then ''test'' else replace_spaces s)) script)"
    by blast
  moreover have "fst (fetchTestCase env tcid
                  (tr0 @ [SetCurrentProgress (turn_progress tcIds i tcid ''Generating...'')])) =
      Inr (testcase_data (env (tr0 @ [generating tcIds i tcid]) (testcase_request tcid)))"
    by (simp add: fetchTestCase_value generating_def)
  ultimately show ?thesis unfolding save_request_def by blast
qed

text \<open>
  C7.  The loop does not remove duplicates.  For every identifier, the results that carry
  it and the fetches of its test case are as many as its occurrences in the input; there
  is one generation request for each element of the input, and one save request for each
  result with the status \<open>success\<close>.  A save request of a turn goes to the output
  folder, and its file name is made of the identifier and of the name \<open>s\<close> (the name of
  the test case this turn fetched, or the identifier), white space replaced: the position
  in the batch, the results so far and the script do not enter it.  So two turns for the
  same identifier that fetch the same test case save to the same file of the same folder,
  wherever they stand in the batch.  In the batch \<open>TC-1 TC-1\<close> both turns save to
  \<open>TC-1_Door_lock\<close> in the folder \<open>out\<close>; in the batch \<open>TC-1, TC-2\<close> the two turns
  save to \<open>TC-1_Door_lock\<close> and \<open>TC-2_Door_lock\<close>.
\<close>

theorem duplicates_processed_independently:
  "(\<exists>results new. generateLoop env st tcIds 0 [] tr = (Inr results, tr @ new) \<and>
      (\<forall>x. length (filter (\<lambda>r. tcId r = x) results) = count_list tcIds x) \<and>
      (\<forall>x. length (filter (\<lambda>ev. ev = Fetch (Get (''/api/codebeamer/testcase/'' @ x))) new) =
            count_list tcIds x) \<and>
      length (filter is_generate_request new) = length tcIds \<and>
      length (filter is_save_request new) =
        length (filter (\<lambda>r. status r = ''success'') results))
   \<and> (\<forall>ev \<in> set (effects (iteration env st tcIds i results0 tcid) tr0).
        is_save_request ev \<longrightarrow>
          (\<exists>d s script.
             fst (fetchTestCase env tcid
                    (tr0 @ [SetCurrentProgress (turn_progress tcIds i tcid ''Generating...'')])) =
               Inr d \<and>
             js_or (opt_prop d ''name'') (JStr tcid) = JStr s \<and>
             ev = Fetch (Post ''/api/test/save-file''
                    (JObj [(''folder_path'', JStr (outputFolder st)),
                           (''filename'',
                              JStr (replace_spaces tcid @ ''_'' @
                                      (if replace_spaces s = [] then ''test''
                                       else replace_spaces s))),
                           (''content'', script)]))))
   \<and> (\<forall>ev \<in> set (effects (iteration env st tcIds i results0 tcid) tr0).
       \<forall>ev' \<in> set (effects (iteration env st tcIds j results1 tcid) tr1).
         is_save_request ev \<and> is_save_request ev' \<and>
         fst (fetchTestCase env tcid
                (tr0 @ [SetCurrentProgress (turn_progress tcIds i tcid ''Generating...'')])) =
         fst (fetchTestCase env tcid
                (tr1 @ [SetCurrentProgress (turn_progress tcIds j tcid ''Generating...'')])) \<longrightarrow>
           (\<exists>fn script script'.
              ev = Fetch (Post ''/api/test/save-file''
                     (JObj [(''folder_path'', JStr (outputFolder st)), (''filename'', JStr fn),
                            (''content'', script)])) \<and>
              ev' = Fetch (Post ''/api/test/save-file''
                     (JObj [(''folder_path'', JStr (outputFolder st)), (''filename'', JStr fn),
                            (''content'', script')]))))
   \<and> parseTestCaseIds (testCaseIds gen_dup) = [''TC-1'', ''TC-1'']
   \<and> filter is_save_request (effects (handleGenerate env_ok gen_dup) []) =
       [Fetch (Post ''/api/test/save-file''
          (JObj [(''folder_path'', JStr ''out''), (''filename'', JStr ''TC-1_Door_lock''),
                 (''content'', JStr ''*** Test Cases ***'')])),
        Fetch (Post ''/api/test/save-file''
          (JObj [(''folder_path'', JStr ''out''), (''filename'', JStr ''TC-1_Door_lock''),
                 (''content'', JStr ''*** Test Cases ***'')]))]
   \<and> filter is_save_request (effects (handleGenerate env_ok gen_two) []) =
       [Fetch (Post ''/api/test/save-file''
          (JObj [(''folder_path'', JStr ''out''), (''filename'', JStr ''TC-1_Door_lock''),
                 (''content'', JStr ''*** Test Cases ***'')])),
        Fetch (Post ''/api/test/save-file''
          (JObj [(''folder_path'', JStr ''out''), (''filename'', JStr ''TC-2_Door_lock''),
                 (''content'', JStr ''*** Test Cases ***'')]))]"
proof (intro conjI)
  show "\<exists>results new. generateLoop env st tcIds 0 [] tr = (Inr results, tr @ new) \<and>
      (\<forall>x. length (filter (\<lambda>r. tcId r = x) results) = count_list tcIds x) \<and>
      (\<forall>x. length (filter (\<lambda>ev. ev = Fetch (Get (''/api/codebeamer/testcase/'' @ x))) new) =
            count_list tcIds x) \<and>
      length (filter is_generate_request new) = length tcIds \<and>
      length (filter is_save_request new) =
        length (filter (\<lambda>r. status r = ''success'') results)"
    using batch_counts [of env st tcIds tr] unfolding testcase_request_def .
next
  show "\<forall>ev \<in> set (effects (iteration env st tcIds i results0 tcid) tr0).
        is_save_request ev \<longrightarrow>
          (\<exists>d s script.
             fst (fetchTestCase env tcid
                    (tr0 @ [SetCurrentProgress (turn_progress tcIds i tcid ''Generating...'')])) =
               Inr d \<and>
             js_or (opt_prop d ''name'') (JStr tcid) = JStr s \<and>
             ev = Fetch (Post ''/api/test/save-file''
                    (JObj [(''folder_path'', JStr (outputFolder st)),
                           (''filename'',
                              JStr (replace_spaces tcid @ ''_'' @
                                      (if replace_spaces s = [] then ''test''
                                       else replace_spaces s))),
                           (''content'', script)])))"
    using turn_save_request by blast
next
  show "\<forall>ev \<in> set (effects (iteration env st tcIds i results0 tcid) tr0).
       \<forall>ev' \<in> set (effects (iteration env st tcIds j results1 tcid) tr1).
         is_save_request ev \<and> is_save_request ev' \<and>
         fst (fetchTestCase env tcid
                (tr0 @ [SetCurrentProgress (turn_progress tcIds i tcid ''Generating...'')])) =
         fst (fetchTestCase env tcid
                (tr1 @ [SetCurrentProgress (turn_progress tcIds j tcid ''Generating...'')])) \<longrightarrow>
           (\<exists>fn script script'.
              ev = Fetch (Post ''/api/test/save-file''
                     (JObj [(''folder_path'', JStr (outputFolder st)), (''filename'', JStr fn),
                            (''content'', script)])) \<and>
              ev' = Fetch (Post ''/api/test/save-file''
                     (JObj [(''folder_path'', JStr (outputFolder st)), (''filename'', JStr fn),
                            (''content'', script')])))"
  proof (intro ballI impI, elim conjE)
    fix ev ev'
    assume ev: "ev \<in> set (effects (iteration env st tcIds i results0 tcid) tr0)"
      and ev': "ev' \<in> set (effects (iteration env st tcIds j results1 tcid) tr1)"
      and save: "is_save_request ev" and save': "is_save_request ev'"
      and same: "fst (fetchTestCase env tcid
                (tr0 @ [SetCurrentProgress (turn_progress tcIds i tcid ''Generating...'')])) =
         fst (fetchTestCase env tcid
                (tr1 @ [SetCurrentProgress (turn_progress tcIds j tcid ''Generating...'')]))"
    from turn_save_request [OF ev save]
    obtain d s script where
      d: "fst (fetchTestCase env tcid
                  (tr0 @ [SetCurrentProgress (turn_progress tcIds i tcid ''Generating...'')])) = Inr d"
      and s: "js_or (opt_prop d ''name'') (JStr tcid) = JStr s"
      and e: "ev = Fetch (Post ''/api/test/save-file''
                  (JObj [(''folder_path'', JStr (outputFolder st)),
                         (''filename'',
                            JStr (replace_spaces tcid @ ''_'' @
                                    (if replace_spaces s = [] then ''test'' else replace_spaces s))),
                         (''content'', script)]))"
      by blast
    from turn_save_request [OF ev' save']
    obtain d' s' script' where
      d': "fst (fetchTestCase env tcid
                  (tr1 @ [SetCurrentProgress (turn_progress tcIds j tcid ''Generating...'')])) = Inr d'"
      and s': "js_or (opt_prop d' ''name'') (JStr tcid) = JStr s'"
      and e': "ev' = Fetch (Post ''/api/test/save-file''
                  (JObj [(''folder_path'', JStr (outputFolder st)),
                         (''filename'',
                            JStr (replace_spaces tcid @ ''_'' @
                                    (if replace_spaces s' = [] then ''test'' else replace_spaces s'))),
                         (''content'', script')]))"
      by blast
    from d d' same have "d' = d" by simp
    with s s' have "s' = s" by simp
    with e e' show "\<exists>fn script script'.
              ev = Fetch (Post ''/api/test/save-file''
                     (JObj [(''folder_path'', JStr (outputFolder st)), (''filename'', JStr fn),
                            (''content'', script)])) \<and>
              ev' = Fetch (Post ''/api/test/save-file''
                     (JObj [(''folder_path'', JStr (outputFolder st)), (''filename'', JStr fn),
                            (''content'', script')]))"
      by blast
  qed
next
  show "parseTestCaseIds (testCaseIds gen_dup) = [''TC-1'', ''TC-1'']"
    by code_simp
next
  show "filter is_save_request (effects (handleGenerate env_ok gen_dup) []) =
       [Fetch (Post ''/api/test/save-file''
          (JObj [(''folder_path'', JStr ''out''), (''filename'', JStr ''TC-1_Door_lock''),
                 (''content'', JStr ''*** Test Cases ***'')])),
        Fetch (Post ''/api/test/save-file''
          (JObj [(''folder_path'', JStr ''out''), (''filename'', JStr ''TC-1_Door_lock''),
                 (''content'', JStr ''*** Test Cases ***'')]))]"
    by code_simp
next
  show "filter is_save_request (effects (handleGenerate env_ok gen_two) []) =
       [Fetch (Post ''/api/test/save-file''
          (JObj [(''folder_path'', JStr ''out''), (''filename'', JStr ''TC-1_Door_lock''),
                 (''content'', JStr ''*** Test Cases ***'')])),
        Fetch (Post ''/api/test/save-file''
          (JObj [(''folder_path'', JStr ''out''), (''filename'', JStr ''TC-2_Door_lock''),
                 (''content'', JStr ''*** Test Cases ***'')]))]"
    by code_simp
qed


theorem duplicates_processed_independently_witness:
  "Fetch (Post ''/api/test/save-file''
       (JObj [(''folder_path'', JStr ''out''), (''filename'', JStr ''TC-1_Door_lock''),
              (''content'', JStr ''*** Test Cases ***'')]))
     \<in> set (effects (iteration env_ok gen_dup [''TC-1'', ''TC-1''] 0 [] ''TC-1'') [])
   \<and> Fetch (Post ''/api/test/save-file''
       (JObj [(''folder_path'', JStr ''out''), (''filename'', JStr ''TC-1_Door_lock''),
              (''content'', JStr ''*** Test Cases ***'')]))
     \<in> set (effects (iteration env_ok gen_dup [''TC-1'', ''TC-1''] 1 [] ''TC-1'') [])
   \<and> is_save_request
     (Fetch (Post ''/api/test/save-file''
       (JObj [(''folder_path'', JStr ''out''), (''filename'', JStr ''TC-1_Door_lock''),
              (''content'', JStr ''*** Test Cases ***'')])))
   \<and> fst (fetchTestCase env_ok ''TC-1''
          ([] @ [SetCurrentProgress (turn_progress [''TC-1'', ''TC-1''] 0 ''TC-1'' ''Generating...'')])) =
    fst (fetchTestCase env_ok ''TC-1''
          ([] @ [SetCurrentProgress (turn_progress [''TC-1'', ''TC-1''] 1 ''TC-1'' ''Generating...'')]))
   \<and> (\<exists>d s script.
         fst (fetchTestCase env_ok ''TC-1''
                ([] @ [SetCurrentProgress (turn_progress [''TC-1'', ''TC-1''] 0 ''TC-1'' ''Generating...'')])) =
           Inr d \<and>
         js_or (opt_prop d ''name'') (JStr ''TC-1'') = JStr s \<and>
         Fetch (Post ''/api/test/save-file''
       (JObj [(''folder_path'', JStr ''out''), (''filename'', JStr ''TC-1_Door_lock''),
              (''content'', JStr ''*** Test Cases ***'')])) =
         Fetch (Post ''/api/test/save-file''
                (JObj [(''folder_path'', JStr (outputFolder gen_dup)),
                       (''filename'',
                          JStr (replace_spaces ''TC-1'' @ ''_'' @
                                  (if replace_spaces s = [] then ''test''
                                   else replace_spaces s))),
                       (''content'', script)])))
   \<and> (\<exists>fn script script'.
         Fetch (Post ''/api/test/save-file''
       (JObj [(''folder_path'', JStr ''out''), (''filename'', JStr ''TC-1_Door_lock''),
              (''content'', JStr ''*** Test Cases ***'')])) =
         Fetch (Post ''/api/test/save-file''
                (JObj [(''folder_path'', JStr (outputFolder gen_dup)), (''filename'', JStr fn),
                       (''content'', script)])) \<and>
         Fetch (Post ''/api/test/save-file''
       (JObj [(''folder_path'', JStr ''out''), (''filename'', JStr ''TC-1_Door_lock''),
              (''content'', JStr ''*** Test Cases ***'')])) =
         Fetch (Post ''/api/test/save-file''
                (JObj [(''folder_path'', JStr (outputFolder gen_dup)), (''filename'', JStr fn),
                       (''content'', script')])))"
proof -
  note run = duplicates_processed_independently
         [where env = env_ok and st = gen_dup and tcIds = "[''TC-1'', ''TC-1'']" and i = 0
            and j = 1 and ?results0.0 = "[]" and ?results1.0 = "[]" and tcid = "''TC-1''"
            and ?tr0.0 = "[]" and ?tr1.0 = "[]" and tr = "[]"]
  have first: "Fetch (Post ''/api/test/save-file''
       (JObj [(''folder_path'', JStr ''out''), (''filename'', JStr ''TC-1_Door_lock''),
              (''content'', JStr ''*** Test Cases ***'')]))
     \<in> set (effects (iteration env_ok gen_dup [''TC-1'', ''TC-1''] 0 [] ''TC-1'') [])"
    by code_simp
  have second: "Fetch (Post ''/api/test/save-file''
       (JObj [(''folder_path'', JStr ''out''), (''filename'', JStr ''TC-1_Door_lock''),
              (''content'', JStr ''*** Test Cases ***'')]))
     \<in> set (effects (iteration env_ok gen_dup [''TC-1'', ''TC-1''] 1 [] ''TC-1'') [])"
    by code_simp
  have save: "is_save_request
     (Fetch (Post ''/api/test/save-file''
       (JObj [(''folder_path'', JStr ''out''), (''filename'', JStr ''TC-1_Door_lock''),
              (''content'', JStr ''*** Test Cases ***'')])))"
    by simp
  have same: "fst (fetchTestCase env_ok ''TC-1''
          ([] @ [SetCurrentProgress (turn_progress [''TC-1'', ''TC-1''] 0 ''TC-1'' ''Generating...'')])) =
    fst (fetchTestCase env_ok ''TC-1''
          ([] @ [SetCurrentProgress (turn_progress [''TC-1'', ''TC-1''] 1 ''TC-1'' ''Generating...'')]))"
    by code_simp
  have name: "(\<exists>d s script.
         fst (fetchTestCase env_ok ''TC-1''
                ([] @ [SetCurrentProgress (turn_progress [''TC-1'', ''TC-1''] 0 ''TC-1'' ''Generating...'')])) =
           Inr d \<and>
         js_or (opt_prop d ''name'') (JStr ''TC-1'') = JStr s \<and>
         Fetch (Post ''/api/test/save-file''
       (JObj [(''folder_path'', JStr ''out''), (''filename'', JStr ''TC-1_Door_lock''),
              (''content'', JStr ''*** Test Cases ***'')])) =
         Fetch (Post ''/api/test/save-file''
                (JObj [(''folder_path'', JStr (outputFolder gen_dup)),
                       (''filename'',
                          JStr (replace_spaces ''TC-1'' @ ''_'' @
                                  (if replace_spaces s = [] then ''test''
                                   else replace_spaces s))),
                       (''content'', script)])))"
    using run [THEN conjunct2, THEN conjunct1, rule_format, OF first save] .
  have both: "(is_save_request
     (Fetch (Post ''/api/test/save-file''
       (JObj [(''folder_path'', JStr ''out''), (''filename'', JStr ''TC-1_Door_lock''),
              (''content'', JStr ''*** Test Cases ***'')])))) \<and> (is_save_request
     (Fetch (Post ''/api/test/save-file''
       (JObj [(''folder_path'', JStr ''out''), (''filename'', JStr ''TC-1_Door_lock''),
              (''content'', JStr ''*** Test Cases ***'')])))) \<and> (fst (fetchTestCase env_ok ''TC-1''
          ([] @ [SetCurrentProgress (turn_progress [''TC-1'', ''TC-1''] 0 ''TC-1'' ''Generating...'')])) =
    fst (fetchTestCase env_ok ''TC-1''
          ([] @ [SetCurrentProgress (turn_progress [''TC-1'', ''TC-1''] 1 ''TC-1'' ''Generating...'')])))"
    using save same by (intro conjI)
  have same_file: "(\<exists>fn script script'.
         Fetch (Post ''/api/test/save-file''
       (JObj [(''folder_path'', JStr ''out''), (''filename'', JStr ''TC-1_Door_lock''),
              (''content'', JStr ''*** Test Cases ***'')])) =
         Fetch (Post ''/api/test/save-file''
                (JObj [(''folder_path'', JStr (outputFolder gen_dup)), (''filename'', JStr fn),
                       (''content'', script)])) \<and>
         Fetch (Post ''/api/test/save-file''
       (JObj [(''folder_path'', JStr ''out''), (''filename'', JStr ''TC-1_Door_lock''),
              (''content'', JStr ''*** Test Cases ***'')])) =
         Fetch (Post ''/api/test/save-file''
                (JObj [(''folder_path'', JStr (outputFolder gen_dup)), (''filename'', JStr fn),
                       (''content'', script')])))"
    using run [THEN conjunct2, THEN conjunct2, THEN conjunct1, rule_format, OF first second both] .
  from first second save same name same_file show ?thesis by (intro conjI)
qed


section \<open>The report before a request\<close>





lemma testcase_request_kinds [simp]:
  "is_testcase_request (Fetch (testcase_request x))"
  "\<not> is_testcase_request (Fetch (generation_request st y d))"
  "\<not> is_testcase_request (Fetch (save_request f n t))"
  by (simp_all add: testcase_request_def generation_request_def save_request_def)





section \<open>The reports of a run\<close>



end
